theory Spec2Isabelle
  imports Complex_Main
begin

section \<open>Data model\<close>

text \<open>
  The server keeps all state in one relational store. A table with an integer or string
  primary key that the handlers only read and update by key is a map from the key to the
  row; a table that is searched, ordered or filtered is the list of its rows in insertion
  order. Field names carry a short prefix for their table, since record fields share one
  name space: \<open>g_phone\<close> is \<open>guests.phone\<close>, \<open>rm_status\<close> is \<open>rooms.status\<close>, and so on.

  A decimal column, and the decimal text a request carries for it, is the rational number
  it denotes: the handlers modelled here pass such text to the store as they receive it.
  Broadcasts, push notifications and console output leave the store untouched and are left
  out.
\<close>

type_synonym money = rat

record user =
  u_role :: string
  u_branchId :: "int option"

record branch =
  b_name :: string
  b_isActive :: bool

record room =
  rm_number :: string
  rm_branchId :: int
  rm_roomTypeId :: int
  rm_status :: string
  rm_isActive :: bool

record guest =
  g_id :: int
  g_firstName :: string
  g_lastName :: string
  g_phone :: "string option"
  g_email :: "string option"
  g_branchId :: "int option"
  g_reservationCount :: int
  g_isActive :: bool
  g_createdAt :: nat

record tax =
  t_id :: int
  t_taxName :: string
  t_rate :: money
  t_applicationType :: string
  t_isActive :: bool

text \<open>One entry of the \<open>appliedTaxes\<close> breakdown (the handler stores the list as JSON text).\<close>

record applied_tax =
  at_taxId :: int
  at_taxName :: string
  at_rate :: money
  at_amount :: money

record reservation =
  r_branchId :: "int option"
  r_guestId :: int
  r_status :: string
  r_confirmationNumber :: string
  r_createdById :: string
  r_totalAmount :: money
  r_taxAmount :: money
  r_appliedTaxes :: "applied_tax list"
  r_notes :: string

text \<open>The columns of a reservation-room row that a request body supplies.\<close>

record room_details =
  rd_roomId :: int
  rd_checkInDate :: string
  rd_checkOutDate :: string
  rd_adults :: int
  rd_children :: int
  rd_ratePerNight :: money
  rd_totalAmount :: money
  rd_specialRequests :: "string option"

record reservationRoom = room_details +
  rr_id :: int
  rr_reservationId :: string

datatype action = Read | Write | Delete

record state =
  users :: "string \<rightharpoonup> user"
  customPermissions :: "string \<Rightarrow> string \<Rightarrow> action \<Rightarrow> bool"
  branches :: "int \<rightharpoonup> branch"
  rooms :: "int \<rightharpoonup> room"
  guests :: "guest list"
  nextGuestId :: int
  taxes :: "tax list"
  reservations :: "string \<rightharpoonup> reservation"
  reservationRooms :: "reservationRoom list"
  nextReservationRoomId :: int

text \<open>
  \<open>customPermissions\<close> stands for \<open>roleStorage.getUserPermissions\<close>, the permission table of
  the custom roles, which the handlers consult and never change.
\<close>

subsection \<open>Responses\<close>

datatype body =
  Message string
  | ActionResult string string
  | ReservationJson string reservation
  | ReservationDetail "(reservation \<times> reservationRoom list) option"
  | ReservationRow "reservation option"
  | NoContent

type_synonym response = "nat \<times> body"

section \<open>Permission gate\<close>

text \<open>
  \<open>checkBranchPermissions(userRole, userBranchId, targetBranchId?)\<close>. The optional target
  is \<open>None\<close> when the argument is \<open>undefined\<close>; the test \<open>!targetBranchId\<close> also holds
  for the number 0.
\<close>

definition falsy_id :: "int option \<Rightarrow> bool" where
  "falsy_id x = (case x of None \<Rightarrow> True | Some n \<Rightarrow> n = 0)"

definition checkBranchPermissions :: "string \<Rightarrow> int option \<Rightarrow> int option \<Rightarrow> bool" where
  "checkBranchPermissions userRole userBranchId targetBranchId =
    (if userRole = ''superadmin'' then True
     else if falsy_id targetBranchId then True
     else if userRole = ''branch-admin'' \<or> userRole = ''custom''
       then userBranchId = targetBranchId
     else False)"

text \<open>
  \<open>checkUserPermission(userId, module, action)\<close>: built-in roles are decided in place, a
  custom role by its permission table.
\<close>

definition checkUserPermission :: "state \<Rightarrow> string \<Rightarrow> string \<Rightarrow> action \<Rightarrow> bool" where
  "checkUserPermission s userId moduleName act =
    (case users s userId of
       None \<Rightarrow> False
     | Some u \<Rightarrow>
        if u_role u = ''superadmin'' then True
        else if u_role u = ''branch-admin''
          then \<not> (moduleName \<in> set [''users'', ''branches'', ''settings''])
        else if u_role u = ''front-desk''
          then (if \<not> (moduleName \<in> set [''dashboard'', ''reservations'', ''rooms'',
                                      ''guests'', ''billing'']) then False
                else if act = Delete \<and> \<not> (moduleName \<in> set [''reservations'']) then False
                else True)
        else if u_role u = ''custom'' then customPermissions s userId moduleName act
        else False)"

section \<open>Branches\<close>

definition getBranch :: "state \<Rightarrow> int \<Rightarrow> branch option" where
  "getBranch s bid = branches s bid"

text \<open>\<open>updateBranch(id, { isActive })\<close>: an update that matches no row changes nothing.\<close>

definition updateBranch :: "int \<Rightarrow> bool \<Rightarrow> state \<Rightarrow> state" where
  "updateBranch bid active s =
    (case branches s bid of
       None \<Rightarrow> s
     | Some b \<Rightarrow> s\<lparr>branches := (branches s)(bid \<mapsto> b\<lparr>b_isActive := active\<rparr>)\<rparr>)"

definition deleteBranch :: "int \<Rightarrow> state \<Rightarrow> state" where
  "deleteBranch bid s = s\<lparr>branches := (branches s)(bid := None)\<rparr>"

text \<open>
  \<open>DELETE /api/branches/:id\<close>. The first argument is the id of the session user. Foreign
  keys from other tables to the branch are declared outside the sources and are not
  modelled, so the hard delete always goes through.
\<close>

definition deleteBranchHandler :: "string \<Rightarrow> int \<Rightarrow> state \<Rightarrow> response \<times> state" where
  "deleteBranchHandler userId branchId s =
    (case users s userId of
       None \<Rightarrow> ((403, Message ''Insufficient permissions''), s)
     | Some u \<Rightarrow>
        if u_role u \<noteq> ''superadmin'' then ((403, Message ''Insufficient permissions''), s)
        else (case getBranch s branchId of
           None \<Rightarrow> ((404, Message ''Branch not found''), s)
         | Some b \<Rightarrow>
            if b_isActive b
              then ((200, ActionResult ''deactivated'' ''Branch deactivated successfully''),
                    updateBranch branchId False s)
              else ((200, ActionResult ''deleted'' ''Branch deleted permanently''),
                    deleteBranch branchId s)))"

section \<open>Text and number helpers\<close>

text \<open>
  \<open>x ILIKE pattern\<close>. In the pattern \<open>%\<close> stands for any run of characters, \<open>_\<close> for any one
  character, and a backslash makes the character after it stand for itself. The database
  raises on a pattern that ends in a lone backslash; the patterns built below always end in
  \<open>%\<close>, so that case (answered \<open>False\<close> here) does not arise. Case is folded for the ASCII
  letters; a \<open>NULL\<close> column matches nothing.
\<close>

definition to_lower :: "char \<Rightarrow> char" where
  "to_lower c =
    (case map_of (zip ''ABCDEFGHIJKLMNOPQRSTUVWXYZ'' ''abcdefghijklmnopqrstuvwxyz'') c of
       None \<Rightarrow> c
     | Some d \<Rightarrow> d)"

fun like :: "string \<Rightarrow> string \<Rightarrow> bool" where
  "like [] [] = True"
| "like [] (c # cs) = False"
| "like (p # ps) [] = (p = CHR ''%'' \<and> like ps [])"
| "like (p # ps) (c # cs) =
    (if p = CHR ''%'' then like ps (c # cs) \<or> like (p # ps) cs
     else if p = CHR ''_'' then like ps cs
     else if p = CHR 0x5C then (case ps of [] \<Rightarrow> False | q # qs \<Rightarrow> q = c \<and> like qs cs)
     else p = c \<and> like ps cs)"

definition ilike :: "string \<Rightarrow> string \<Rightarrow> bool" where
  "ilike x pattern = like (map to_lower pattern) (map to_lower x)"

definition ilike_nullable :: "string option \<Rightarrow> string \<Rightarrow> bool" where
  "ilike_nullable x pattern = (case x of None \<Rightarrow> False | Some v \<Rightarrow> ilike v pattern)"

text \<open>\<open>Number.prototype.toString\<close> of a non-negative integer, and \<open>String.prototype.slice(-k)\<close>.\<close>

definition digit_char :: "nat \<Rightarrow> char" where
  "digit_char d = ''0123456789'' ! d"

definition is_digit :: "char \<Rightarrow> bool" where
  "is_digit c = (c \<in> set ''0123456789'')"

function nat_toString :: "nat \<Rightarrow> string" where
  "nat_toString n =
    (if n < 10 then [digit_char n] else nat_toString (n div 10) @ [digit_char (n mod 10)])"
  by pat_completeness auto
termination
  by (relation "measure id") auto

declare nat_toString.simps [simp del]

definition slice_last :: "nat \<Rightarrow> string \<Rightarrow> string" where
  "slice_last k str = drop (length str - k) str"

text \<open>The pattern \<open>RES\d{8}\<close>, matched against the whole string.\<close>

definition matches_RES8 :: "string \<Rightarrow> bool" where
  "matches_RES8 str =
    (take 3 str = ''RES'' \<and> length (drop 3 str) = 8 \<and> list_all is_digit (drop 3 str))"

section \<open>Guest directory\<close>

record guest_input =
  gi_firstName :: string
  gi_lastName :: string
  gi_phone :: "string option"
  gi_email :: "string option"

record insert_guest = guest_input +
  ig_branchId :: "int option"

text \<open>The \<open>WHERE\<close> clause of the search: the query, unescaped, between two \<open>%\<close>.\<close>

definition guest_matches :: "string \<Rightarrow> guest \<Rightarrow> bool" where
  "guest_matches q g =
    (ilike (g_firstName g) (''%'' @ q @ ''%'') \<or> ilike (g_lastName g) (''%'' @ q @ ''%'')
     \<or> ilike_nullable (g_phone g) (''%'' @ q @ ''%'')
     \<or> ilike_nullable (g_email g) (''%'' @ q @ ''%''))"

text \<open>
  \<open>searchGuests(query, branchId?)\<close>: active guests matching the query, newest first, at
  most ten. Rows with equal \<open>createdAt\<close> keep their table order.
\<close>

definition searchGuests :: "state \<Rightarrow> string \<Rightarrow> int option \<Rightarrow> guest list" where
  "searchGuests s query branchId =
    take 10 (sort_key (\<lambda>g. - int (g_createdAt g))
      (filter (\<lambda>g. g_isActive g \<and> guest_matches query g
                   \<and> (falsy_id branchId \<or> g_branchId g = branchId))
              (guests s)))"

text \<open>
  \<open>createGuest\<close>. Modelled from the spec: the defaults of the columns the insert does not
  name (\<open>shared/schema\<close> is not among the sources): a new guest starts with
  \<open>reservationCount = 0\<close> and is active; \<open>createdAt\<close> is the time of the insert.
\<close>

definition createGuest :: "nat \<Rightarrow> insert_guest \<Rightarrow> state \<Rightarrow> guest \<times> state" where
  "createGuest now g s =
    (let result = \<lparr>g_id = nextGuestId s, g_firstName = gi_firstName g,
                    g_lastName = gi_lastName g, g_phone = gi_phone g, g_email = gi_email g,
                    g_branchId = ig_branchId g, g_reservationCount = 0, g_isActive = True,
                    g_createdAt = now\<rparr>
     in (result, s\<lparr>guests := guests s @ [result], nextGuestId := nextGuestId s + 1\<rparr>))"

record guest_update =
  gu_firstName :: "string option"
  gu_lastName :: "string option"
  gu_phone :: "string option"
  gu_email :: "string option"

definition apply_guest_update :: "guest_update \<Rightarrow> guest \<Rightarrow> guest" where
  "apply_guest_update d g =
    g\<lparr>g_firstName := (case gu_firstName d of None \<Rightarrow> g_firstName g | Some v \<Rightarrow> v),
      g_lastName := (case gu_lastName d of None \<Rightarrow> g_lastName g | Some v \<Rightarrow> v),
      g_phone := (case gu_phone d of None \<Rightarrow> g_phone g | Some v \<Rightarrow> Some v),
      g_email := (case gu_email d of None \<Rightarrow> g_email g | Some v \<Rightarrow> Some v)\<rparr>"

definition updateGuest :: "int \<Rightarrow> guest_update \<Rightarrow> state \<Rightarrow> state" where
  "updateGuest gid d s =
    s\<lparr>guests := map (\<lambda>g. if g_id g = gid then apply_guest_update d g else g) (guests s)\<rparr>"

section \<open>Rooms\<close>

text \<open>\<open>updateRoom(id, { status })\<close>: every call in the reservation handlers sets the status only.\<close>

definition updateRoom :: "int \<Rightarrow> string \<Rightarrow> state \<Rightarrow> state" where
  "updateRoom roomId newStatus s =
    (case rooms s roomId of
       None \<Rightarrow> s
     | Some rm \<Rightarrow> s\<lparr>rooms := (rooms s)(roomId \<mapsto> rm\<lparr>rm_status := newStatus\<rparr>)\<rparr>)"

section \<open>Reservation storage\<close>

definition room_row :: "int \<Rightarrow> string \<Rightarrow> 'a room_details_scheme \<Rightarrow> reservationRoom" where
  "room_row i reservationId d =
    \<lparr>rd_roomId = rd_roomId d, rd_checkInDate = rd_checkInDate d,
     rd_checkOutDate = rd_checkOutDate d, rd_adults = rd_adults d,
     rd_children = rd_children d, rd_ratePerNight = rd_ratePerNight d,
     rd_totalAmount = rd_totalAmount d, rd_specialRequests = rd_specialRequests d,
     rr_id = i, rr_reservationId = reservationId\<rparr>"

text \<open>\<open>createReservationRoom\<close>: the row takes the next serial id.\<close>

definition createReservationRoom :: "string \<Rightarrow> 'a room_details_scheme \<Rightarrow> state \<Rightarrow> state" where
  "createReservationRoom reservationId d s =
    s\<lparr>reservationRooms :=
        reservationRooms s @ [room_row (nextReservationRoomId s) reservationId d],
      nextReservationRoomId := nextReservationRoomId s + 1\<rparr>"

fun insertReservationRooms :: "string \<Rightarrow> room_details list \<Rightarrow> state \<Rightarrow> state" where
  "insertReservationRooms reservationId [] s = s"
| "insertReservationRooms reservationId (d # ds) s =
    insertReservationRooms reservationId ds (createReservationRoom reservationId d s)"

definition incrementReservationCount :: "int \<Rightarrow> state \<Rightarrow> state" where
  "incrementReservationCount guestId s =
    s\<lparr>guests := map (\<lambda>g. if g_id g = guestId
                           then g\<lparr>g_reservationCount := g_reservationCount g + 1\<rparr> else g)
                   (guests s)\<rparr>"

text \<open>
  \<open>createReservation(reservation, roomsData)\<close>, one transaction. The first argument is the
  primary key the database gives the new row; an insert under a key that is taken raises,
  the transaction rolls back, and the result is \<open>None\<close>. The guest counter is raised inside
  the branch for a non-empty room list, as in the source.
\<close>

definition createReservation ::
  "string \<Rightarrow> reservation \<Rightarrow> room_details list \<Rightarrow> state \<Rightarrow> (reservation \<times> state) option" where
  "createReservation newId reservation roomsData s =
    (if reservations s newId \<noteq> None then None
     else
       let s1 = s\<lparr>reservations := (reservations s)(newId \<mapsto> reservation)\<rparr>
       in if roomsData \<noteq> []
          then let s2 = insertReservationRooms newId roomsData s1
               in Some (reservation,
                        if r_guestId reservation \<noteq> 0
                        then incrementReservationCount (r_guestId reservation) s2 else s2)
          else Some (reservation, s1))"

definition getReservation :: "state \<Rightarrow> string \<Rightarrow> (reservation \<times> reservationRoom list) option" where
  "getReservation s reservationId =
    (case reservations s reservationId of
       None \<Rightarrow> None
     | Some r \<Rightarrow>
        Some (r, filter (\<lambda>rr. rr_reservationId rr = reservationId) (reservationRooms s)))"

record reservation_update =
  ru_status :: "string option"
  ru_notes :: "string option"
  ru_totalAmount :: "money option"
  ru_taxAmount :: "money option"

definition apply_reservation_update :: "reservation_update \<Rightarrow> reservation \<Rightarrow> reservation" where
  "apply_reservation_update d r =
    r\<lparr>r_status := (case ru_status d of None \<Rightarrow> r_status r | Some v \<Rightarrow> v),
      r_notes := (case ru_notes d of None \<Rightarrow> r_notes r | Some v \<Rightarrow> v),
      r_totalAmount := (case ru_totalAmount d of None \<Rightarrow> r_totalAmount r | Some v \<Rightarrow> v),
      r_taxAmount := (case ru_taxAmount d of None \<Rightarrow> r_taxAmount r | Some v \<Rightarrow> v)\<rparr>"

text \<open>\<open>updateReservation(id, data)\<close> returns the updated row, or nothing when no row matches.\<close>

definition updateReservation ::
  "string \<Rightarrow> reservation_update \<Rightarrow> state \<Rightarrow> reservation option \<times> state" where
  "updateReservation reservationId d s =
    (case reservations s reservationId of
       None \<Rightarrow> (None, s)
     | Some r \<Rightarrow>
        (Some (apply_reservation_update d r),
         s\<lparr>reservations := (reservations s)(reservationId \<mapsto> apply_reservation_update d r)\<rparr>))"

section \<open>Exceptions\<close>

text \<open>
  An operation that may throw returns the exception, if any, together with the store as it
  stands at that moment: the update handler awaits its storage calls one by one, outside
  any transaction, so what was written before a throw stays written. \<open>andThen\<close> is the
  sequencing of two awaited calls inside one \<open>try\<close> block.
\<close>

datatype error = TypeError string

type_synonym outcome = "error option \<times> state"

definition andThen :: "outcome \<Rightarrow> (state \<Rightarrow> outcome) \<Rightarrow> outcome" where
  "andThen r f = (case fst r of Some err \<Rightarrow> r | None \<Rightarrow> f (snd r))"

text \<open>
  The update handler calls \<open>storage.deleteReservationRoom\<close> and
  \<open>storage.updateReservationRoom\<close>. \<open>storage\<close> is an instance of the class \<open>DatabaseStorage\<close>
  of \<open>server/storage.ts\<close>, and that class has no member of either name (its
  reservation-room operations are \<open>createReservationRoom\<close> and \<open>getReservationRooms\<close>). Each
  call therefore applies \<open>undefined\<close> and throws a \<open>TypeError\<close>, with the store untouched.
\<close>

definition deleteReservationRoom :: "int \<Rightarrow> state \<Rightarrow> outcome" where
  "deleteReservationRoom i s =
    (Some (TypeError ''storage.deleteReservationRoom is not a function''), s)"

definition updateReservationRoom ::
  "int \<Rightarrow> string \<Rightarrow> 'a room_details_scheme \<Rightarrow> state \<Rightarrow> outcome" where
  "updateReservationRoom i reservationId d s =
    (Some (TypeError ''storage.updateReservationRoom is not a function''), s)"

section \<open>Creating a reservation\<close>

text \<open>
  The \<open>reservation\<close> object of a request body. The handler hands it to the store as it
  comes, so it carries the amounts and the tax breakdown the client wrote into it. (A
  column that the client leaves out takes the default that \<open>shared/schema\<close> declares for it;
  that file is not among the sources, and the bodies modelled here name all three.)
\<close>

record reservation_input =
  ri_branchId :: "int option"
  ri_status :: string
  ri_notes :: string
  ri_totalAmount :: money
  ri_taxAmount :: money
  ri_appliedTaxes :: "applied_tax list"

record create_body =
  cb_guest :: guest_input
  cb_reservation :: reservation_input
  cb_rooms :: "room_details list"

text \<open>What a request takes from outside the store: \<open>Date.now()\<close> and the key of the new row.\<close>

record env =
  e_now :: nat
  e_newReservationId :: string

text \<open>
  \<open>POST /api/reservations\<close>. The routes file registers this method and path twice. Express
  runs the handlers of a path in the order of their registration and moves on to a later
  one only when a handler calls \<open>next\<close>. The first registration takes \<open>(req, res)\<close> and sends a
  response on every path through its body, so it answers every request; the second
  registration (the one that checks the write permission, overrides the branch of
  custom-role users and computes taxes) is never reached. \<open>createReservationHandler\<close> is the
  first registration. Its commented blocks are the definitions that follow; request
  bodies are taken as well-formed, with the \<open>guest\<close> and \<open>reservation\<close> objects and the
  \<open>rooms\<close> array present.
\<close>

definition resolveGuest :: "nat \<Rightarrow> guest_input \<Rightarrow> int option \<Rightarrow> state \<Rightarrow> guest \<times> state" where
  "resolveGuest now guestData branchId s =
    (let existingGuests =
           (case gi_phone guestData of
              None \<Rightarrow> []
            | Some phone \<Rightarrow> if phone \<noteq> [] then searchGuests s phone None else [])
     in case existingGuests of
          g # _ \<Rightarrow> (g, s)
        | [] \<Rightarrow>
           createGuest now
             \<lparr>gi_firstName = gi_firstName guestData, gi_lastName = gi_lastName guestData,
              gi_phone = gi_phone guestData, gi_email = gi_email guestData,
              ig_branchId = branchId\<rparr> s)"

definition confirmationNumber :: "nat \<Rightarrow> string" where
  "confirmationNumber now = ''RES'' @ slice_last 8 (nat_toString now)"

fun reserveRooms :: "room_details list \<Rightarrow> state \<Rightarrow> state" where
  "reserveRooms [] s = s"
| "reserveRooms (roomData # rest) s =
    reserveRooms rest (updateRoom (rd_roomId roomData) ''reserved'' s)"

text \<open>The object handed to \<open>storage.createReservation\<close>.\<close>

definition reservationWithConfirmation ::
  "env \<Rightarrow> string \<Rightarrow> reservation_input \<Rightarrow> guest \<Rightarrow> reservation" where
  "reservationWithConfirmation e userId reservationData guest =
    \<lparr>r_branchId = ri_branchId reservationData, r_guestId = g_id guest,
     r_status = ri_status reservationData,
     r_confirmationNumber = confirmationNumber (e_now e),
     r_createdById = userId, r_totalAmount = ri_totalAmount reservationData,
     r_taxAmount = ri_taxAmount reservationData,
     r_appliedTaxes = ri_appliedTaxes reservationData,
     r_notes = ri_notes reservationData\<rparr>"

definition createReservationHandler ::
  "env \<Rightarrow> string \<Rightarrow> create_body \<Rightarrow> state \<Rightarrow> response \<times> state" where
  "createReservationHandler e userId body s =
    (case users s userId of
       None \<Rightarrow> ((401, Message ''User not found''), s)
     | Some user \<Rightarrow>
        if \<not> checkBranchPermissions (u_role user) (u_branchId user)
               (ri_branchId (cb_reservation body))
          then ((403, Message ''Insufficient permissions for this branch''), s)
        else
          (let reservationData = cb_reservation body;
               roomsData = cb_rooms body;
               resolved = resolveGuest (e_now e) (cb_guest body)
                            (ri_branchId reservationData) s;
               guest = fst resolved;
               s1 = snd resolved
           in case createReservation (e_newReservationId e)
                     (reservationWithConfirmation e userId reservationData guest)
                     roomsData s1 of
                None \<Rightarrow> ((500, Message ''Failed to create reservation''), s1)
              | Some created \<Rightarrow>
                 ((201, ReservationJson (e_newReservationId e) (fst created)),
                  reserveRooms roomsData (snd created))))"

section \<open>Updating and cancelling a reservation\<close>

record room_entry = room_details +
  re_id :: "int option"

record patch_body =
  pb_guest :: "guest_update option"
  pb_reservation :: "reservation_update option"
  pb_rooms :: "room_entry list option"
  pb_fields :: reservation_update

text \<open>
  A body of \<open>PATCH /api/reservations/:id\<close>: the three optional objects of the comprehensive
  shape, and in \<open>pb_fields\<close> the reservation columns found at the top level of the body (the
  legacy shape), as \<open>insertReservationSchema.partial().parse\<close> returns them. An update
  that names no column changes nothing.
\<close>

definition is_empty_update :: "reservation_update \<Rightarrow> bool" where
  "is_empty_update d =
    (ru_status d = None \<and> ru_notes d = None \<and> ru_totalAmount d = None \<and> ru_taxAmount d = None)"

definition incomingRoomIds :: "room_entry list \<Rightarrow> int list" where
  "incomingRoomIds roomList =
    concat (map (\<lambda>room. case re_id room of None \<Rightarrow> [] | Some i \<Rightarrow> if i = 0 then [] else [i])
                roomList)"

fun removeRooms :: "reservationRoom list \<Rightarrow> state \<Rightarrow> outcome" where
  "removeRooms [] s = (None, s)"
| "removeRooms (roomToRemove # rest) s =
    andThen (deleteReservationRoom (rr_id roomToRemove) s)
      (\<lambda>s1. removeRooms rest (updateRoom (rd_roomId roomToRemove) ''available'' s1))"

definition roomPayload :: "room_entry \<Rightarrow> room_details" where
  "roomPayload roomData =
    \<lparr>rd_roomId = rd_roomId roomData, rd_checkInDate = rd_checkInDate roomData,
     rd_checkOutDate = rd_checkOutDate roomData, rd_adults = rd_adults roomData,
     rd_children = rd_children roomData, rd_ratePerNight = rd_ratePerNight roomData,
     rd_totalAmount = rd_totalAmount roomData,
     rd_specialRequests =
       Some (case rd_specialRequests roomData of None \<Rightarrow> [] | Some v \<Rightarrow> v)\<rparr>"

fun processRooms :: "string \<Rightarrow> room_entry list \<Rightarrow> state \<Rightarrow> outcome" where
  "processRooms reservationId [] s = (None, s)"
| "processRooms reservationId (roomData # rest) s =
    (case re_id roomData of
       None \<Rightarrow>
         processRooms reservationId rest
           (updateRoom (rd_roomId roomData) ''reserved''
             (createReservationRoom reservationId (roomPayload roomData) s))
     | Some i \<Rightarrow>
         if i = 0
         then processRooms reservationId rest
                (updateRoom (rd_roomId roomData) ''reserved''
                  (createReservationRoom reservationId (roomPayload roomData) s))
         else andThen (updateReservationRoom i reservationId (roomPayload roomData) s)
                (\<lambda>s1. processRooms reservationId rest s1))"

definition reconcileRooms ::
  "string \<Rightarrow> reservationRoom list \<Rightarrow> room_entry list \<Rightarrow> state \<Rightarrow> outcome" where
  "reconcileRooms reservationId currentRoomReservations roomList s =
    (let roomsToRemove =
           filter (\<lambda>rr. \<not> (rr_id rr \<in> set (incomingRoomIds roomList)))
                  currentRoomReservations
     in andThen (removeRooms roomsToRemove s) (\<lambda>s1. processRooms reservationId roomList s1))"

text \<open>The switch of the legacy status update.\<close>

definition newRoomStatus :: "string \<Rightarrow> string" where
  "newRoomStatus reservationStatus =
    (if reservationStatus = ''checked-in'' then ''occupied''
     else if reservationStatus = ''checked-out'' then ''available''
     else if reservationStatus = ''cancelled'' then ''available''
     else if reservationStatus = ''confirmed'' \<or> reservationStatus = ''pending''
       then ''reserved''
     else ''reserved'')"

fun cascadeRoomStatus :: "string \<Rightarrow> reservationRoom list \<Rightarrow> state \<Rightarrow> state" where
  "cascadeRoomStatus reservationStatus [] s = s"
| "cascadeRoomStatus reservationStatus (roomReservation # rest) s =
    cascadeRoomStatus reservationStatus rest
      (updateRoom (rd_roomId roomReservation) (newRoomStatus reservationStatus) s)"

definition comprehensiveUpdate ::
  "string \<Rightarrow> reservation \<times> reservationRoom list \<Rightarrow> patch_body \<Rightarrow> state \<Rightarrow> outcome" where
  "comprehensiveUpdate reservationId existingReservation body s =
    (let s1 = (case pb_guest body of
                 None \<Rightarrow> s
               | Some guest \<Rightarrow>
                  if r_guestId (fst existingReservation) \<noteq> 0
                  then updateGuest (r_guestId (fst existingReservation)) guest s else s);
         s2 = (case pb_reservation body of
                 None \<Rightarrow> s1
               | Some reservation \<Rightarrow>
                  if \<not> is_empty_update reservation
                  then snd (updateReservation reservationId reservation s1) else s1)
     in case pb_rooms body of
          None \<Rightarrow> (None, s2)
        | Some roomList \<Rightarrow> reconcileRooms reservationId (snd existingReservation) roomList s2)"

text \<open>
  \<open>PATCH /api/reservations/:id\<close>. An exception anywhere in the body lands in the handler's
  \<open>catch\<close>, which answers 500.
\<close>

definition updateReservationHandler ::
  "string \<Rightarrow> string \<Rightarrow> patch_body \<Rightarrow> state \<Rightarrow> response \<times> state" where
  "updateReservationHandler userId reservationId body s =
    (case users s userId of
       None \<Rightarrow> ((401, Message ''User not found''), s)
     | Some user \<Rightarrow>
        if \<not> checkUserPermission s userId ''reservations'' Write
          then ((403, Message ''You do not have permission to update reservations''), s)
        else (case getReservation s reservationId of
           None \<Rightarrow> ((404, Message ''Reservation not found''), s)
         | Some existingReservation \<Rightarrow>
            if \<not> checkBranchPermissions (u_role user) (u_branchId user)
                   (r_branchId (fst existingReservation))
              then ((403, Message ''Insufficient permissions for this branch''), s)
            else if r_status (fst existingReservation) = ''checked-out''
                    \<or> r_status (fst existingReservation) = ''cancelled''
              then ((403, Message ''Cannot edit reservation after checkout or cancellation''), s)
            else if pb_guest body \<noteq> None \<or> pb_reservation body \<noteq> None \<or> pb_rooms body \<noteq> None
              then (let updated = comprehensiveUpdate reservationId existingReservation body s
                    in case fst updated of
                         Some err \<Rightarrow> ((500, Message ''Failed to update reservation''), snd updated)
                       | None \<Rightarrow>
                          ((200, ReservationDetail (getReservation (snd updated) reservationId)),
                           snd updated))
            else
              (let validatedData = pb_fields body;
                   (reservation, s1) = updateReservation reservationId validatedData s
               in ((200, ReservationRow reservation),
                   (case ru_status validatedData of
                      None \<Rightarrow> s1
                    | Some newStatus \<Rightarrow>
                       if newStatus \<noteq> []
                       then cascadeRoomStatus newStatus (snd existingReservation) s1
                       else s1)))))"

fun releaseRooms :: "reservationRoom list \<Rightarrow> state \<Rightarrow> state" where
  "releaseRooms [] s = s"
| "releaseRooms (roomReservation # rest) s =
    releaseRooms rest (updateRoom (rd_roomId roomReservation) ''available'' s)"

definition cancelled_update :: reservation_update where
  "cancelled_update =
    \<lparr>ru_status = Some ''cancelled'', ru_notes = None, ru_totalAmount = None, ru_taxAmount = None\<rparr>"

definition cancelReservationHandler :: "string \<Rightarrow> string \<Rightarrow> state \<Rightarrow> response \<times> state" where
  "cancelReservationHandler userId reservationId s =
    (case users s userId of
       None \<Rightarrow> ((401, Message ''User not found''), s)
     | Some user \<Rightarrow>
        if \<not> checkUserPermission s userId ''reservations'' Delete
          then ((403, Message ''You do not have permission to delete reservations''), s)
        else (case getReservation s reservationId of
           None \<Rightarrow> ((404, Message ''Reservation not found''), s)
         | Some existingReservation \<Rightarrow>
            if \<not> checkBranchPermissions (u_role user) (u_branchId user)
                   (r_branchId (fst existingReservation))
              then ((403, Message ''Insufficient permissions for this branch''), s)
            else ((204, NoContent),
                  releaseRooms (snd existingReservation)
                    (snd (updateReservation reservationId cancelled_update s)))))"

section \<open>Well-formed stores\<close>


text \<open>No two active guests carry the same non-empty phone number.\<close>

definition unique_active_phones :: "state \<Rightarrow> bool" where
  "unique_active_phones s =
    distinct (map g_phone
      (filter (\<lambda>g. g_isActive g \<and> g_phone g \<noteq> None \<and> g_phone g \<noteq> Some [])
              (guests s)))"

section \<open>A small hotel\<close>

text \<open>
  One branch with four rooms and three staff accounts. The concrete checks below start
  from variations of this store.
\<close>

definition demo_users :: "string \<rightharpoonup> user" where
  "demo_users =
    [''admin'' \<mapsto> \<lparr>u_role = ''superadmin'', u_branchId = None\<rparr>,
     ''manager'' \<mapsto> \<lparr>u_role = ''branch-admin'', u_branchId = Some 1\<rparr>,
     ''desk'' \<mapsto> \<lparr>u_role = ''front-desk'', u_branchId = Some 1\<rparr>]"

definition demo_room :: "string \<Rightarrow> string \<Rightarrow> room" where
  "demo_room number status =
    \<lparr>rm_number = number, rm_branchId = 1, rm_roomTypeId = 1, rm_status = status,
     rm_isActive = True\<rparr>"

definition demo_rooms :: "int \<rightharpoonup> room" where
  "demo_rooms =
    [101 \<mapsto> demo_room ''101'' ''available'', 102 \<mapsto> demo_room ''102'' ''available'',
     103 \<mapsto> demo_room ''103'' ''available'', 104 \<mapsto> demo_room ''104'' ''available'']"

definition demo_state :: state where
  "demo_state =
    \<lparr>users = demo_users, customPermissions = (\<lambda>userId moduleName act. False),
     branches = [1 \<mapsto> \<lparr>b_name = ''Main'', b_isActive = True\<rparr>],
     rooms = demo_rooms, guests = [], nextGuestId = 1, taxes = [],
     reservations = Map.empty, reservationRooms = [], nextReservationRoomId = 1\<rparr>"

definition demo_detail :: "int \<Rightarrow> money \<Rightarrow> room_details" where
  "demo_detail roomId amount =
    \<lparr>rd_roomId = roomId, rd_checkInDate = ''2025-07-01'', rd_checkOutDate = ''2025-07-03'',
     rd_adults = 2, rd_children = 0, rd_ratePerNight = amount / 2, rd_totalAmount = amount,
     rd_specialRequests = None\<rparr>"

definition demo_guest :: "int \<Rightarrow> string \<Rightarrow> bool \<Rightarrow> nat \<Rightarrow> guest" where
  "demo_guest i phone active created =
    \<lparr>g_id = i, g_firstName = ''Asha'', g_lastName = ''Rai'', g_phone = Some phone,
     g_email = None, g_branchId = Some 1, g_reservationCount = 0, g_isActive = active,
     g_createdAt = created\<rparr>"

definition demo_reservation :: "string \<Rightarrow> reservation" where
  "demo_reservation status =
    \<lparr>r_branchId = Some 1, r_guestId = 1, r_status = status,
     r_confirmationNumber = ''RES28000123'', r_createdById = ''manager'',
     r_totalAmount = 600, r_taxAmount = 0, r_appliedTaxes = [], r_notes = []\<rparr>"

text \<open>
  The hotel with one reservation \<open>r1\<close> in the given status, holding rooms 101, 102 and 103
  through the reservation-room rows 1, 2 and 3.
\<close>

definition demo_booked :: "string \<Rightarrow> state" where
  "demo_booked status =
    demo_state
      \<lparr>rooms := [101 \<mapsto> demo_room ''101'' ''reserved'', 102 \<mapsto> demo_room ''102'' ''reserved'',
                 103 \<mapsto> demo_room ''103'' ''reserved'', 104 \<mapsto> demo_room ''104'' ''available''],
       guests := [demo_guest 1 ''555-0100'' True 100], nextGuestId := 2,
       reservations := [''r1'' \<mapsto> demo_reservation status],
       reservationRooms := [room_row 1 ''r1'' (demo_detail 101 200),
                            room_row 2 ''r1'' (demo_detail 102 200),
                            room_row 3 ''r1'' (demo_detail 103 200)],
       nextReservationRoomId := 4\<rparr>"

definition no_update :: reservation_update where
  "no_update = \<lparr>ru_status = None, ru_notes = None, ru_totalAmount = None, ru_taxAmount = None\<rparr>"

definition status_only :: "string \<Rightarrow> patch_body" where
  "status_only status =
    \<lparr>pb_guest = None, pb_reservation = None, pb_rooms = None,
     pb_fields = no_update\<lparr>ru_status := Some status\<rparr>\<rparr>"

definition demo_guest_input :: "string \<Rightarrow> guest_input" where
  "demo_guest_input phone =
    \<lparr>gi_firstName = ''Asha'', gi_lastName = ''Rai'', gi_phone = Some phone,
     gi_email = None\<rparr>"

definition demo_reservation_input ::
  "money \<Rightarrow> money \<Rightarrow> applied_tax list \<Rightarrow> reservation_input" where
  "demo_reservation_input amount taxAmount breakdown =
    \<lparr>ri_branchId = Some 1, ri_status = ''confirmed'', ri_notes = [],
     ri_totalAmount = amount, ri_taxAmount = taxAmount, ri_appliedTaxes = breakdown\<rparr>"

text \<open>
  A request of a client that leaves the taxes to the server: the total it sends is the sum
  of the room totals, with no tax and an empty breakdown.
\<close>

definition demo_body :: "string \<Rightarrow> room_details list \<Rightarrow> create_body" where
  "demo_body phone roomsData =
    \<lparr>cb_guest = demo_guest_input phone,
     cb_reservation = demo_reservation_input (sum_list (map rd_totalAmount roomsData)) 0 [],
     cb_rooms = roomsData\<rparr>"

definition demo_env :: "string \<Rightarrow> env" where
  "demo_env newId = \<lparr>e_now = 1751328000123, e_newReservationId = newId\<rparr>"

definition demo_tax :: "int \<Rightarrow> string \<Rightarrow> money \<Rightarrow> tax" where
  "demo_tax i name rate =
    \<lparr>t_id = i, t_taxName = name, t_rate = rate, t_applicationType = ''reservation'',
     t_isActive = True\<rparr>"

definition demo_with_guests :: "guest list \<Rightarrow> state" where
  "demo_with_guests gs = demo_state\<lparr>guests := gs, nextGuestId := 1 + int (length gs)\<rparr>"

definition demo_entry :: "int option \<Rightarrow> int \<Rightarrow> money \<Rightarrow> room_entry" where
  "demo_entry i roomId amount =
    \<lparr>rd_roomId = roomId, rd_checkInDate = ''2025-07-01'', rd_checkOutDate = ''2025-07-03'',
     rd_adults = 2, rd_children = 0, rd_ratePerNight = amount / 2, rd_totalAmount = amount,
     rd_specialRequests = None, re_id = i\<rparr>"

definition rooms_only :: "room_entry list \<Rightarrow> patch_body" where
  "rooms_only roomList =
    \<lparr>pb_guest = None, pb_reservation = None, pb_rooms = Some roomList, pb_fields = no_update\<rparr>"

section \<open>Properties\<close>

subsection \<open>Auxiliary facts\<close>

text \<open>What each storage operation and each loop leaves alone, and what it does to the rooms.\<close>

lemmas demo_defs = demo_state_def demo_users_def demo_rooms_def demo_room_def demo_detail_def
  demo_guest_def demo_reservation_def demo_booked_def no_update_def status_only_def room_row_def
  demo_guest_input_def demo_reservation_input_def demo_body_def demo_env_def demo_tax_def
  demo_with_guests_def demo_entry_def rooms_only_def

lemmas gate_defs = checkUserPermission_def checkBranchPermissions_def falsy_id_def

lemmas search_defs = ilike_def ilike_nullable_def to_lower_def

lemma updateRoom_frame:
  "users (updateRoom q st s) = users s"
  "customPermissions (updateRoom q st s) = customPermissions s"
  "branches (updateRoom q st s) = branches s"
  "guests (updateRoom q st s) = guests s"
  "nextGuestId (updateRoom q st s) = nextGuestId s"
  "taxes (updateRoom q st s) = taxes s"
  "reservations (updateRoom q st s) = reservations s"
  "reservationRooms (updateRoom q st s) = reservationRooms s"
  "nextReservationRoomId (updateRoom q st s) = nextReservationRoomId s"
  by (simp_all add: updateRoom_def split: option.split)

lemma updateRoom_rooms:
  "rooms (updateRoom q st s) k =
    (if k = q then map_option (\<lambda>rm. rm\<lparr>rm_status := st\<rparr>) (rooms s q) else rooms s k)"
  by (simp add: updateRoom_def split: option.split)

lemma reserveRooms_frame:
  "users (reserveRooms ds s) = users s"
  "customPermissions (reserveRooms ds s) = customPermissions s"
  "branches (reserveRooms ds s) = branches s"
  "guests (reserveRooms ds s) = guests s"
  "nextGuestId (reserveRooms ds s) = nextGuestId s"
  "taxes (reserveRooms ds s) = taxes s"
  "reservations (reserveRooms ds s) = reservations s"
  "reservationRooms (reserveRooms ds s) = reservationRooms s"
  "nextReservationRoomId (reserveRooms ds s) = nextReservationRoomId s"
  by (induction ds arbitrary: s; simp add: updateRoom_frame)+

lemma reserveRooms_rooms:
  "rooms (reserveRooms ds s) k =
    (if k \<in> rd_roomId ` set ds
     then map_option (\<lambda>rm. rm\<lparr>rm_status := ''reserved''\<rparr>) (rooms s k) else rooms s k)"
  by (induction ds arbitrary: s) (auto simp: updateRoom_rooms option.map_comp comp_def)

lemma releaseRooms_frame:
  "users (releaseRooms rrs s) = users s"
  "customPermissions (releaseRooms rrs s) = customPermissions s"
  "branches (releaseRooms rrs s) = branches s"
  "guests (releaseRooms rrs s) = guests s"
  "nextGuestId (releaseRooms rrs s) = nextGuestId s"
  "taxes (releaseRooms rrs s) = taxes s"
  "reservations (releaseRooms rrs s) = reservations s"
  "reservationRooms (releaseRooms rrs s) = reservationRooms s"
  "nextReservationRoomId (releaseRooms rrs s) = nextReservationRoomId s"
  by (induction rrs arbitrary: s; simp add: updateRoom_frame)+

lemma releaseRooms_rooms:
  "rooms (releaseRooms rrs s) k =
    (if k \<in> rd_roomId ` set rrs
     then map_option (\<lambda>rm. rm\<lparr>rm_status := ''available''\<rparr>) (rooms s k) else rooms s k)"
  by (induction rrs arbitrary: s) (auto simp: updateRoom_rooms option.map_comp comp_def)




lemma updateReservation_frame:
  "users (snd (updateReservation rid d s)) = users s"
  "customPermissions (snd (updateReservation rid d s)) = customPermissions s"
  "branches (snd (updateReservation rid d s)) = branches s"
  "rooms (snd (updateReservation rid d s)) = rooms s"
  "guests (snd (updateReservation rid d s)) = guests s"
  "nextGuestId (snd (updateReservation rid d s)) = nextGuestId s"
  "taxes (snd (updateReservation rid d s)) = taxes s"
  "reservationRooms (snd (updateReservation rid d s)) = reservationRooms s"
  "nextReservationRoomId (snd (updateReservation rid d s)) = nextReservationRoomId s"
  by (simp_all add: updateReservation_def split: option.split)

lemma updateReservation_reservations:
  "reservations (snd (updateReservation rid d s)) k =
    (if k = rid then map_option (apply_reservation_update d) (reservations s rid)
     else reservations s k)"
  by (simp add: updateReservation_def split: option.split)



lemma createGuest_frame:
  "users (snd (createGuest now g s)) = users s"
  "customPermissions (snd (createGuest now g s)) = customPermissions s"
  "branches (snd (createGuest now g s)) = branches s"
  "rooms (snd (createGuest now g s)) = rooms s"
  "taxes (snd (createGuest now g s)) = taxes s"
  "reservations (snd (createGuest now g s)) = reservations s"
  "reservationRooms (snd (createGuest now g s)) = reservationRooms s"
  "nextReservationRoomId (snd (createGuest now g s)) = nextReservationRoomId s"
  by (simp_all add: createGuest_def Let_def)

lemma resolveGuest_frame:
  "users (snd (resolveGuest now gd br s)) = users s"
  "customPermissions (snd (resolveGuest now gd br s)) = customPermissions s"
  "branches (snd (resolveGuest now gd br s)) = branches s"
  "rooms (snd (resolveGuest now gd br s)) = rooms s"
  "taxes (snd (resolveGuest now gd br s)) = taxes s"
  "reservations (snd (resolveGuest now gd br s)) = reservations s"
  "reservationRooms (snd (resolveGuest now gd br s)) = reservationRooms s"
  "nextReservationRoomId (snd (resolveGuest now gd br s)) = nextReservationRoomId s"
  by (simp_all add: resolveGuest_def Let_def createGuest_frame split: list.split option.split)

lemma insertReservationRooms_frame:
  "users (insertReservationRooms rid ds s) = users s"
  "customPermissions (insertReservationRooms rid ds s) = customPermissions s"
  "branches (insertReservationRooms rid ds s) = branches s"
  "rooms (insertReservationRooms rid ds s) = rooms s"
  "guests (insertReservationRooms rid ds s) = guests s"
  "nextGuestId (insertReservationRooms rid ds s) = nextGuestId s"
  "taxes (insertReservationRooms rid ds s) = taxes s"
  "reservations (insertReservationRooms rid ds s) = reservations s"
  by (induction ds arbitrary: s; simp add: createReservationRoom_def)+

lemma createReservation_result:
  assumes "createReservation i r ds s = Some (r', s2)"
  shows "r' = r" and "reservations s i = None"
    and "users s2 = users s" and "customPermissions s2 = customPermissions s"
    and "branches s2 = branches s" and "rooms s2 = rooms s" and "taxes s2 = taxes s"
    and "nextGuestId s2 = nextGuestId s"
    and "reservations s2 = (reservations s)(i \<mapsto> r)"
    and "guests s2 =
          (if ds \<noteq> [] \<and> r_guestId r \<noteq> 0
           then map (\<lambda>g. if g_id g = r_guestId r
                           then g\<lparr>g_reservationCount := g_reservationCount g + 1\<rparr> else g)
                    (guests s)
           else guests s)"
  using assms
  by (auto simp: createReservation_def Let_def incrementReservationCount_def
                 insertReservationRooms_frame split: if_splits)

lemma createReservation_None_iff:
  "createReservation i r ds s = None \<longleftrightarrow> reservations s i \<noteq> None"
  by (simp add: createReservation_def Let_def)

lemma createReservationHandler_created:
  assumes "createReservationHandler e uid body s = ((201, b), s')"
  shows "\<exists>user resolved row s2.
      users s uid = Some user
    \<and> resolved = resolveGuest (e_now e) (cb_guest body) (ri_branchId (cb_reservation body)) s
    \<and> row = reservationWithConfirmation e uid (cb_reservation body) (fst resolved)
    \<and> createReservation (e_newReservationId e) row (cb_rooms body) (snd resolved)
        = Some (row, s2)
    \<and> b = ReservationJson (e_newReservationId e) row
    \<and> s' = reserveRooms (cb_rooms body) s2"
proof -
  from assms obtain user where user: "users s uid = Some user"
    by (auto simp: createReservationHandler_def split: option.splits)
  define resolved where "resolved = resolveGuest (e_now e) (cb_guest body)
                   (ri_branchId (cb_reservation body)) s"
  define row where "row = reservationWithConfirmation e uid (cb_reservation body)
                            (fst resolved)"
  from assms user obtain created where
    created: "createReservation (e_newReservationId e) row (cb_rooms body) (snd resolved)
               = Some created"
    and b: "b = ReservationJson (e_newReservationId e) (fst created)"
    and s': "s' = reserveRooms (cb_rooms body) (snd created)"
    by (auto simp: createReservationHandler_def Let_def row_def resolved_def
             split: if_splits option.splits)
  have "fst created = row"
    using createReservation_result(1) [of _ row _ _ "fst created" "snd created"] created
    by simp
  with created b s' user show ?thesis
    unfolding row_def resolved_def
    by (cases created) auto
qed

lemma createReservationHandler_code:
  "fst (fst (createReservationHandler e uid body s)) =
    (case users s uid of
       None \<Rightarrow> 401
     | Some user \<Rightarrow>
        if \<not> checkBranchPermissions (u_role user) (u_branchId user)
               (ri_branchId (cb_reservation body)) then 403
        else if reservations s (e_newReservationId e) \<noteq> None then 500
        else 201)"
proof (cases "users s uid")
  case None
  then show ?thesis by (simp add: createReservationHandler_def)
next
  case (Some user)
  have tail: "fst (fst (case createReservation i r ds (snd (resolveGuest now gd br s)) of
                          None \<Rightarrow> ((500, m), t)
                        | Some created \<Rightarrow> ((201, f created), g created))) =
              (if reservations s i \<noteq> None then 500 else 201)"
    for i r ds now gd br m t f g
    by (cases "createReservation i r ds (snd (resolveGuest now gd br s))")
       (auto simp: createReservation_None_iff [symmetric] resolveGuest_frame
                   createReservation_def Let_def split: if_splits)
  show ?thesis
    unfolding createReservationHandler_def Let_def
    by (simp add: Some tail del: not_None_eq)
qed

lemma digit_char_is_digit: "d < 10 \<Longrightarrow> is_digit (digit_char d)"
  unfolding is_digit_def digit_char_def by (rule nth_mem) simp

lemma nat_toString_digits: "list_all is_digit (nat_toString n)"
proof (induction n rule: nat_toString.induct)
  case (1 n)
  show ?case
  proof (cases "n < 10")
    case True
    then show ?thesis
      by (subst nat_toString.simps) (simp add: digit_char_is_digit)
  next
    case False
    then show ?thesis
      using "1.IH" by (subst nat_toString.simps) (simp add: digit_char_is_digit)
  qed
qed

lemma nat_toString_length: "10 ^ k \<le> n \<Longrightarrow> k < length (nat_toString n)"
proof (induction k arbitrary: n)
  case 0
  then show ?case by (subst nat_toString.simps) simp
next
  case (Suc k)
  then have big: "\<not> n < 10"
    by (metis One_nat_def le_trans not_less one_le_numeral one_le_power power_Suc
              mult.right_neutral mult_le_mono2 Suc_leI zero_less_numeral zero_less_power)
  from Suc.prems have "10 ^ k \<le> n div 10"
    by (simp add: less_eq_div_iff_mult_less_eq mult.commute)
  then have "k < length (nat_toString (n div 10))" by (rule Suc.IH)
  then show ?case
    using big by (subst nat_toString.simps) simp
qed

lemma confirmationNumber_pattern:
  assumes "10000000 \<le> now"
  shows "matches_RES8 (confirmationNumber now)"
proof -
  have "10 ^ 7 \<le> now" using assms by simp
  then have len: "7 < length (nat_toString now)" by (rule nat_toString_length)
  have "list_all is_digit (slice_last 8 (nat_toString now))"
    using nat_toString_digits [of now]
    by (auto simp: slice_last_def list_all_iff dest: in_set_dropD)
  moreover have "length (slice_last 8 (nat_toString now)) = 8"
    using len by (simp add: slice_last_def)
  ultimately show ?thesis
    by (simp add: matches_RES8_def confirmationNumber_def)
qed

lemmas create_defs = createReservationHandler_def resolveGuest_def
  searchGuests_def guest_matches_def createGuest_def reservationWithConfirmation_def
  createReservation_def createReservationRoom_def
  incrementReservationCount_def updateRoom_def Let_def

lemma demo_confirmation: "confirmationNumber 1751328000123 = ''RES28000123''"
  by (simp add: confirmationNumber_def slice_last_def digit_char_def nat_toString.simps)



lemma resolveGuest_reuse:
  assumes "gi_phone gd = Some p" and "p \<noteq> []" and "searchGuests s p None = g # rest"
  shows "resolveGuest now gd br s = (g, s)"
  using assms by (simp add: resolveGuest_def)




lemma createReservationHandler_guests:
  assumes "createReservationHandler e uid body s = ((201, b), s')"
  shows "\<exists>br.
      map_option r_guestId (reservations s' (e_newReservationId e)) =
        Some (g_id (fst (resolveGuest (e_now e) (cb_guest body) br s)))
    \<and> guests s' =
        (if cb_rooms body \<noteq> [] \<and> g_id (fst (resolveGuest (e_now e) (cb_guest body) br s)) \<noteq> 0
         then map (\<lambda>x. if g_id x = g_id (fst (resolveGuest (e_now e) (cb_guest body) br s))
                        then x\<lparr>g_reservationCount := g_reservationCount x + 1\<rparr> else x)
                  (guests (snd (resolveGuest (e_now e) (cb_guest body) br s)))
         else guests (snd (resolveGuest (e_now e) (cb_guest body) br s)))
    \<and> nextGuestId s' = nextGuestId (snd (resolveGuest (e_now e) (cb_guest body) br s))"
proof -
  from createReservationHandler_created [OF assms] obtain user resolved row s2 where
    resolved: "resolved = resolveGuest (e_now e) (cb_guest body)
                   (ri_branchId (cb_reservation body)) s"
    and row: "row = reservationWithConfirmation e uid (cb_reservation body) (fst resolved)"
    and created: "createReservation (e_newReservationId e) row (cb_rooms body) (snd resolved)
                   = Some (row, s2)"
    and s': "s' = reserveRooms (cb_rooms body) s2"
    by (elim exE conjE) (rule that, assumption+)
  have gid: "r_guestId row = g_id (fst resolved)"
    by (simp add: row reservationWithConfirmation_def)
  note facts = createReservation_result [OF created]
  show ?thesis
    apply (rule exI [where x = "ri_branchId (cb_reservation body)"])
    unfolding resolved [symmetric]
    using facts(8) facts(9) facts(10) gid
    by (simp add: s' reserveRooms_frame)
qed




lemma room_row_id [simp]:
  "rr_id (room_row i rid d) = i" "rr_reservationId (room_row i rid d) = rid"
  "rd_roomId (room_row i rid d) = rd_roomId d"
  by (simp_all add: room_row_def)

lemma updateGuest_frame:
  "users (updateGuest gid d s) = users s"
  "customPermissions (updateGuest gid d s) = customPermissions s"
  "branches (updateGuest gid d s) = branches s"
  "rooms (updateGuest gid d s) = rooms s"
  "taxes (updateGuest gid d s) = taxes s"
  "reservations (updateGuest gid d s) = reservations s"
  "reservationRooms (updateGuest gid d s) = reservationRooms s"
  "nextReservationRoomId (updateGuest gid d s) = nextReservationRoomId s"
  by (simp_all add: updateGuest_def)

lemma resolveGuest_taxes:
  "fst (resolveGuest now gd br (s\<lparr>taxes := ts\<rparr>)) = fst (resolveGuest now gd br s)"
  by (simp add: resolveGuest_def searchGuests_def createGuest_def Let_def
           split: option.split list.split)

lemma createReservationHandler_response:
  "fst (createReservationHandler e uid body s) =
    (case users s uid of
       None \<Rightarrow> (401, Message ''User not found'')
     | Some user \<Rightarrow>
        if \<not> checkBranchPermissions (u_role user) (u_branchId user)
               (ri_branchId (cb_reservation body))
          then (403, Message ''Insufficient permissions for this branch'')
        else if reservations s (e_newReservationId e) \<noteq> None
          then (500, Message ''Failed to create reservation'')
        else (201, ReservationJson (e_newReservationId e)
                (reservationWithConfirmation e uid (cb_reservation body)
                  (fst (resolveGuest (e_now e) (cb_guest body)
                         (ri_branchId (cb_reservation body)) s)))))"
proof (cases "users s uid")
  case None
  then show ?thesis by (simp add: createReservationHandler_def)
next
  case (Some user)
  have tail: "fst (case createReservation i r ds (snd (resolveGuest now gd br s)) of
                     None \<Rightarrow> ((500, m), t)
                   | Some created \<Rightarrow> ((201, ReservationJson i (fst created)), g created)) =
              (if reservations s i \<noteq> None then (500, m) else (201, ReservationJson i r))"
    for i r ds now gd br m t g
    by (cases "createReservation i r ds (snd (resolveGuest now gd br s))")
       (auto simp: createReservation_None_iff [symmetric] resolveGuest_frame
                   createReservation_def Let_def split: if_splits)
  show ?thesis
    unfolding createReservationHandler_def Let_def
    by (simp add: Some tail del: not_None_eq)
qed

lemma searchGuests_newest:
  assumes "searchGuests s q br = g # rest"
  shows "g \<in> set (guests s) \<and> g_isActive g \<and> guest_matches q g
       \<and> (\<forall>x \<in> set (guests s). g_isActive x \<and> guest_matches q x
              \<and> (falsy_id br \<or> g_branchId x = br) \<longrightarrow> g_createdAt x \<le> g_createdAt g)"
proof -
  let ?P = "\<lambda>g. g_isActive g \<and> guest_matches q g \<and> (falsy_id br \<or> g_branchId g = br)"
  let ?f = "\<lambda>g. - int (g_createdAt g)"
  let ?ys = "sort_key ?f (filter ?P (guests s))"
  from assms have t: "take 10 ?ys = g # rest" by (simp add: searchGuests_def)
  then obtain ys' where ys: "?ys = g # ys'"
    by (cases ?ys) auto
  have "sorted (map ?f ?ys)" by (rule sorted_sort_key)
  then have least: "\<forall>y \<in> set ?ys. ?f g \<le> ?f y"
    unfolding ys by auto
  have set: "set ?ys = {x \<in> set (guests s). ?P x}" by auto
  have "g \<in> set ?ys" unfolding ys by simp
  then have mem: "g \<in> set (guests s) \<and> ?P g" using set by blast
  have "\<forall>x \<in> set (guests s). ?P x \<longrightarrow> g_createdAt x \<le> g_createdAt g"
  proof (intro ballI impI)
    fix x assume "x \<in> set (guests s)" "?P x"
    then have "x \<in> set ?ys" using set by blast
    then have "?f g \<le> ?f x" using least by blast
    then show "g_createdAt x \<le> g_createdAt g" by simp
  qed
  with mem show ?thesis by blast
qed

lemma removeRooms_throws:
  "removeRooms rs s =
    (if rs = [] then (None, s)
     else (Some (TypeError ''storage.deleteReservationRoom is not a function''), s))"
  by (cases rs) (simp_all add: andThen_def deleteReservationRoom_def)

lemma incomingRoomIds_Cons:
  "incomingRoomIds (e # es) =
    (case re_id e of None \<Rightarrow> [] | Some i \<Rightarrow> if i = 0 then [] else [i]) @ incomingRoomIds es"
  by (simp add: incomingRoomIds_def)

lemma processRooms_outcome:
  "fst (processRooms rid es t) =
    (if incomingRoomIds es = [] then None
     else Some (TypeError ''storage.updateReservationRoom is not a function''))"
proof (induction es arbitrary: t)
  case Nil
  then show ?case by (simp add: incomingRoomIds_def)
next
  case (Cons e es)
  then show ?case
    by (cases "re_id e")
       (simp_all add: incomingRoomIds_Cons andThen_def updateReservationRoom_def)
qed

lemma processRooms_rows:
  "take (length (reservationRooms t)) (reservationRooms (snd (processRooms rid es t)))
     = reservationRooms t"
proof (induction es arbitrary: t)
  case Nil
  then show ?case by simp
next
  case (Cons e es)
  let ?t1 = "updateRoom (rd_roomId e) ''reserved''
               (createReservationRoom rid (roomPayload e) t)"
  have rows1: "reservationRooms ?t1 = reservationRooms t @ [room_row (nextReservationRoomId t) rid (roomPayload e)]"
    by (simp add: updateRoom_frame createReservationRoom_def)
  have insert: "take (length (reservationRooms t))
                  (reservationRooms (snd (processRooms rid es ?t1))) = reservationRooms t"
  proof -
    have "take (length (reservationRooms t)) (reservationRooms (snd (processRooms rid es ?t1)))
          = take (length (reservationRooms t))
              (take (length (reservationRooms ?t1))
                 (reservationRooms (snd (processRooms rid es ?t1))))"
      by (simp add: rows1 min_def)
    also have "\<dots> = take (length (reservationRooms t)) (reservationRooms ?t1)"
      by (simp only: Cons.IH)
    also have "\<dots> = reservationRooms t" by (simp add: rows1)
    finally show ?thesis .
  qed
  show ?case
    using insert
    by (cases "re_id e") (simp_all add: andThen_def updateReservationRoom_def)
qed

lemma processRooms_rooms:
  "rooms (snd (processRooms rid es t)) q = rooms t q
   \<or> rooms (snd (processRooms rid es t)) q =
        map_option (\<lambda>rm. rm\<lparr>rm_status := ''reserved''\<rparr>) (rooms t q)"
proof (induction es arbitrary: t)
  case Nil
  then show ?case by simp
next
  case (Cons e es)
  let ?t1 = "updateRoom (rd_roomId e) ''reserved''
               (createReservationRoom rid (roomPayload e) t)"
  have rooms1: "rooms ?t1 q = rooms t q
      \<or> rooms ?t1 q = map_option (\<lambda>rm. rm\<lparr>rm_status := ''reserved''\<rparr>) (rooms t q)"
    by (simp add: updateRoom_rooms createReservationRoom_def)
  have again: "map_option (\<lambda>rm. rm\<lparr>rm_status := ''reserved''\<rparr>) (rooms ?t1 q) =
               map_option (\<lambda>rm. rm\<lparr>rm_status := ''reserved''\<rparr>) (rooms t q)"
    by (simp add: updateRoom_rooms createReservationRoom_def option.map_comp comp_def)
  have insert: "rooms (snd (processRooms rid es ?t1)) q = rooms t q
      \<or> rooms (snd (processRooms rid es ?t1)) q =
          map_option (\<lambda>rm. rm\<lparr>rm_status := ''reserved''\<rparr>) (rooms t q)"
    using Cons.IH [of ?t1] rooms1 again by auto
  show ?case
    using insert
    by (cases "re_id e") (simp_all add: andThen_def updateReservationRoom_def)
qed

lemma comprehensiveUpdate_rooms:
  assumes "pb_rooms body = Some roomList"
  shows "\<exists>s2. comprehensiveUpdate rid existing body s = reconcileRooms rid (snd existing) roomList s2
            \<and> rooms s2 = rooms s \<and> reservationRooms s2 = reservationRooms s"
proof -
  let ?s1 = "case pb_guest body of
               None \<Rightarrow> s
             | Some guest \<Rightarrow> if r_guestId (fst existing) \<noteq> 0
                              then updateGuest (r_guestId (fst existing)) guest s else s"
  let ?s2 = "case pb_reservation body of
               None \<Rightarrow> ?s1
             | Some reservation \<Rightarrow>
                 if \<not> is_empty_update reservation
                 then snd (updateReservation rid reservation ?s1) else ?s1"
  have run: "comprehensiveUpdate rid existing body s = reconcileRooms rid (snd existing) roomList ?s2"
    using assms by (simp add: comprehensiveUpdate_def Let_def)
  have "rooms ?s1 = rooms s \<and> reservationRooms ?s1 = reservationRooms s"
    by (simp add: updateGuest_frame split: option.split)
  then have "rooms ?s2 = rooms s \<and> reservationRooms ?s2 = reservationRooms s"
    by (simp add: updateReservation_frame split: option.split)
  with run show ?thesis by blast
qed

subsection \<open>Branch permission rule\<close>




subsection \<open>Two-phase branch delete\<close>

text \<open>
  C8. For a superadmin caller, \<open>DELETE /api/branches/:id\<close> on an active branch answers
  \<open>action: deactivated\<close>, keeps the branch row with \<open>isActive = false\<close> and leaves every
  other table and every other branch as it was; on an inactive branch it answers
  \<open>action: deleted\<close> and the branch row is gone, again with every other table untouched.
\<close>

theorem deleteBranch_two_phase:
  assumes "users s uid = Some u" and "u_role u = ''superadmin''"
    and "branches s bid = Some b"
  shows "(b_isActive b \<longrightarrow>
           deleteBranchHandler uid bid s =
             ((200, ActionResult ''deactivated'' ''Branch deactivated successfully''),
              s\<lparr>branches := (branches s)(bid \<mapsto> b\<lparr>b_isActive := False\<rparr>)\<rparr>))
       \<and> (\<not> b_isActive b \<longrightarrow>
           deleteBranchHandler uid bid s =
             ((200, ActionResult ''deleted'' ''Branch deleted permanently''),
              s\<lparr>branches := (branches s)(bid := None)\<rparr>))"
  using assms
  by (simp add: deleteBranchHandler_def getBranch_def updateBranch_def deleteBranch_def)

theorem deleteBranch_two_phase_witness:
  "users demo_state ''admin'' = Some \<lparr>u_role = ''superadmin'', u_branchId = None\<rparr>
   \<and> branches demo_state 1 = Some \<lparr>b_name = ''Main'', b_isActive = True\<rparr>
   \<and> fst (deleteBranchHandler ''admin'' 1 demo_state) =
       (200, ActionResult ''deactivated'' ''Branch deactivated successfully'')
   \<and> branches (snd (deleteBranchHandler ''admin'' 1 demo_state)) 1 =
       Some \<lparr>b_name = ''Main'', b_isActive = False\<rparr>
   \<and> rooms (snd (deleteBranchHandler ''admin'' 1 demo_state)) = rooms demo_state
   \<and> fst (deleteBranchHandler ''admin'' 1 (snd (deleteBranchHandler ''admin'' 1 demo_state))) =
       (200, ActionResult ''deleted'' ''Branch deleted permanently'')
   \<and> branches (snd (deleteBranchHandler ''admin'' 1
                      (snd (deleteBranchHandler ''admin'' 1 demo_state)))) 1 = None"
proof -
  let ?u = "\<lparr>u_role = ''superadmin'', u_branchId = None\<rparr>"
  let ?b = "\<lparr>b_name = ''Main'', b_isActive = True\<rparr>"
  let ?s1 = "demo_state\<lparr>branches := (branches demo_state)(1 \<mapsto> ?b\<lparr>b_isActive := False\<rparr>)\<rparr>"
  have u: "users demo_state ''admin'' = Some ?u"
    by (simp add: demo_state_def demo_users_def)
  have b: "branches demo_state 1 = Some ?b"
    by (simp add: demo_state_def)
  have first: "deleteBranchHandler ''admin'' 1 demo_state =
      ((200, ActionResult ''deactivated'' ''Branch deactivated successfully''), ?s1)"
    using deleteBranch_two_phase [OF u _ b] by simp
  have u1: "users ?s1 ''admin'' = Some ?u"
    by (simp add: demo_state_def demo_users_def)
  have b1: "branches ?s1 1 = Some (?b\<lparr>b_isActive := False\<rparr>)"
    by simp
  have second: "deleteBranchHandler ''admin'' 1 ?s1 =
      ((200, ActionResult ''deleted'' ''Branch deleted permanently''),
       ?s1\<lparr>branches := (branches ?s1)(1 := None)\<rparr>)"
    using deleteBranch_two_phase [OF u1 _ b1] by simp
  show ?thesis
    unfolding first second fst_conv snd_conv using u b by simp
qed


subsection \<open>Status-only update\<close>



subsection \<open>Rooms follow the reservation\<close>

text \<open>
  C5. After a successful \<open>POST /api/reservations\<close> every room named in the rooms payload
  has status \<open>reserved\<close>. After a successful \<open>DELETE /api/reservations/:id\<close> the
  reservation row is still there with status \<open>cancelled\<close>, its reservation-room rows are
  untouched, and every room they name has status \<open>available\<close>.
\<close>

theorem rooms_follow_reservation:
  "(createReservationHandler e uid body s = ((201, b), s') \<longrightarrow>
      (\<forall>d \<in> set (cb_rooms body).
         rooms s' (rd_roomId d) =
           map_option (\<lambda>rm. rm\<lparr>rm_status := ''reserved''\<rparr>) (rooms s (rd_roomId d))))
   \<and> (cancelReservationHandler uid' rid t = ((204, b'), t') \<longrightarrow>
        reservations t rid \<noteq> None
      \<and> reservations t' rid =
          map_option (\<lambda>r. r\<lparr>r_status := ''cancelled''\<rparr>) (reservations t rid)
      \<and> reservationRooms t' = reservationRooms t
      \<and> (\<forall>rr \<in> set (reservationRooms t). rr_reservationId rr = rid \<longrightarrow>
           rooms t' (rd_roomId rr) =
             map_option (\<lambda>rm. rm\<lparr>rm_status := ''available''\<rparr>) (rooms t (rd_roomId rr))))"
proof (intro conjI impI)
  assume run: "createReservationHandler e uid body s = ((201, b), s')"
  from createReservationHandler_created [OF run] obtain user resolved row s2 where
    resolved: "resolved = resolveGuest (e_now e) (cb_guest body)
                   (ri_branchId (cb_reservation body)) s"
    and created: "createReservation (e_newReservationId e) row (cb_rooms body) (snd resolved)
                   = Some (row, s2)"
    and s': "s' = reserveRooms (cb_rooms body) s2"
    by (elim exE conjE) (rule that, assumption+)
  have "rooms s2 = rooms s"
    using createReservation_result(6) [OF created] by (simp add: resolved resolveGuest_frame)
  then show "\<forall>d \<in> set (cb_rooms body).
         rooms s' (rd_roomId d) =
           map_option (\<lambda>rm. rm\<lparr>rm_status := ''reserved''\<rparr>) (rooms s (rd_roomId d))"
    by (simp add: s' reserveRooms_rooms)
next
  assume run: "cancelReservationHandler uid' rid t = ((204, b'), t')"
  then have exists: "reservations t rid \<noteq> None"
    by (auto simp: cancelReservationHandler_def getReservation_def
             split: option.splits if_splits)
  from run have t': "t' = releaseRooms (filter (\<lambda>rr. rr_reservationId rr = rid)
                                          (reservationRooms t))
                          (snd (updateReservation rid cancelled_update t))"
    by (auto simp: cancelReservationHandler_def getReservation_def
             split: option.splits if_splits)
  show "reservations t rid \<noteq> None" by (rule exists)
  show "reservations t' rid =
          map_option (\<lambda>r. r\<lparr>r_status := ''cancelled''\<rparr>) (reservations t rid)"
    using exists
    by (auto simp: t' releaseRooms_frame updateReservation_reservations
                   apply_reservation_update_def cancelled_update_def)
  show "reservationRooms t' = reservationRooms t"
    by (simp add: t' releaseRooms_frame updateReservation_frame)
  show "\<forall>rr \<in> set (reservationRooms t). rr_reservationId rr = rid \<longrightarrow>
           rooms t' (rd_roomId rr) =
             map_option (\<lambda>rm. rm\<lparr>rm_status := ''available''\<rparr>) (rooms t (rd_roomId rr))"
    by (auto simp: t' releaseRooms_rooms updateReservation_frame)
qed

theorem rooms_follow_reservation_witness:
  "fst (fst (createReservationHandler (demo_env ''r1'') ''manager''
               (demo_body ''555-0100'' [demo_detail 101 200, demo_detail 102 150])
               demo_state)) = 201
   \<and> map_option rm_status
        (rooms (snd (createReservationHandler (demo_env ''r1'') ''manager''
                       (demo_body ''555-0100'' [demo_detail 101 200, demo_detail 102 150])
                       demo_state)) 101) = Some ''reserved''
   \<and> map_option rm_status
        (rooms (snd (createReservationHandler (demo_env ''r1'') ''manager''
                       (demo_body ''555-0100'' [demo_detail 101 200, demo_detail 102 150])
                       demo_state)) 102) = Some ''reserved''
   \<and> fst (fst (cancelReservationHandler ''manager'' ''r1'' (demo_booked ''confirmed''))) = 204
   \<and> map_option r_status
        (reservations (snd (cancelReservationHandler ''manager'' ''r1''
                              (demo_booked ''confirmed''))) ''r1'') = Some ''cancelled''
   \<and> map_option rm_status
        (rooms (snd (cancelReservationHandler ''manager'' ''r1''
                       (demo_booked ''confirmed''))) 101) = Some ''available''
   \<and> map_option rm_status
        (rooms (snd (cancelReservationHandler ''manager'' ''r1''
                       (demo_booked ''confirmed''))) 103) = Some ''available''"
proof -
  let ?body = "demo_body ''555-0100'' [demo_detail 101 200, demo_detail 102 150]"
  let ?c = "createReservationHandler (demo_env ''r1'') ''manager'' ?body demo_state"
  let ?d = "cancelReservationHandler ''manager'' ''r1'' (demo_booked ''confirmed'')"
  have c_code: "fst (fst ?c) = 201"
    by (simp add: createReservationHandler_code gate_defs demo_defs)
  then have c_run: "?c = ((201, snd (fst ?c)), snd ?c)"
    by (metis prod.collapse)
  have d_code: "fst (fst ?d) = 204"
    by (simp add: cancelReservationHandler_def getReservation_def gate_defs demo_defs)
  then have d_run: "?d = ((204, snd (fst ?d)), snd ?d)"
    by (metis prod.collapse)
  note fact = rooms_follow_reservation
    [of "demo_env ''r1''" "''manager''" ?body demo_state "snd (fst ?c)" "snd ?c"
        "''manager''" "''r1''" "demo_booked ''confirmed''" "snd (fst ?d)" "snd ?d"]
  note created = fact [THEN conjunct1, THEN mp, OF c_run]
  note cancelled = fact [THEN conjunct2, THEN mp, OF d_run]
  note cancelled_row = cancelled [THEN conjunct2, THEN conjunct1]
  note cancelled_rooms = cancelled [THEN conjunct2, THEN conjunct2, THEN conjunct2]
  have r101: "map_option rm_status (rooms (snd ?c) 101) = Some ''reserved''"
    and r102: "map_option rm_status (rooms (snd ?c) 102) = Some ''reserved''"
    using created by (simp_all add: demo_defs)
  have status: "map_option r_status (reservations (snd ?d) ''r1'') = Some ''cancelled''"
    using cancelled_row by (simp add: demo_defs)
  have a101: "map_option rm_status (rooms (snd ?d) 101) = Some ''available''"
    and a103: "map_option rm_status (rooms (snd ?d) 103) = Some ''available''"
    using cancelled_rooms by (simp_all add: demo_defs)
  show ?thesis
    by (intro conjI c_code r101 r102 d_code status a101 a103)
qed


subsection \<open>Reservations in a terminal state\<close>

text \<open>
  C4 holds on the update path and not on the cancel path. The reservation \<open>r1\<close> is
  checked out and room 101 has since been occupied again. \<open>DELETE /api/reservations/r1\<close>
  answers 204, rewrites the status to \<open>cancelled\<close> and sets rooms 101, 102 and 103 to
  \<open>available\<close>; \<open>PATCH /api/reservations/r1\<close> on the checked-out reservation is refused
  with 403 and changes nothing.
\<close>

theorem cancel_after_checkout:
  "cancelReservationHandler ''admin'' ''r1''
     (demo_booked ''checked-out''\<lparr>rooms := (rooms (demo_booked ''checked-out''))
                                    (101 \<mapsto> demo_room ''101'' ''occupied'')\<rparr>) =
     ((204, NoContent),
      demo_booked ''cancelled''
        \<lparr>rooms := [101 \<mapsto> demo_room ''101'' ''available'',
                   102 \<mapsto> demo_room ''102'' ''available'',
                   103 \<mapsto> demo_room ''103'' ''available'',
                   104 \<mapsto> demo_room ''104'' ''available'']\<rparr>)
   \<and> updateReservationHandler ''admin'' ''r1'' (status_only ''confirmed'')
       (demo_booked ''checked-out'') =
     ((403, Message ''Cannot edit reservation after checkout or cancellation''),
      demo_booked ''checked-out'')"
  by (simp add: cancelReservationHandler_def updateReservationHandler_def getReservation_def
                updateReservation_def apply_reservation_update_def cancelled_update_def
                updateRoom_def gate_defs demo_defs fun_upd_twist)

theorem cancel_after_checkout_witness:
  "fst (fst (cancelReservationHandler ''admin'' ''r1''
     (demo_booked ''checked-out''\<lparr>rooms := (rooms (demo_booked ''checked-out''))
                                    (101 \<mapsto> demo_room ''101'' ''occupied'')\<rparr>))) = 204
   \<and> map_option r_status (reservations (snd (cancelReservationHandler ''admin'' ''r1''
     (demo_booked ''checked-out''\<lparr>rooms := (rooms (demo_booked ''checked-out''))
                                    (101 \<mapsto> demo_room ''101'' ''occupied'')\<rparr>))) ''r1'')
       = Some ''cancelled''
   \<and> map_option rm_status (rooms (snd (cancelReservationHandler ''admin'' ''r1''
     (demo_booked ''checked-out''\<lparr>rooms := (rooms (demo_booked ''checked-out''))
                                    (101 \<mapsto> demo_room ''101'' ''occupied'')\<rparr>))) 101)
       = Some ''available''
   \<and> map_option r_status (reservations (demo_booked ''checked-out'') ''r1'')
       = Some ''checked-out''"
  using cancel_after_checkout
  by (simp add: demo_booked_def demo_state_def demo_reservation_def demo_room_def)


subsection \<open>Deactivated guests\<close>




subsection \<open>Totals of a new reservation\<close>

text \<open>
  C1 does not hold of the code. Every reservation created by \<open>POST /api/reservations\<close> is
  stored, and returned, with the total amount, the tax amount and the tax breakdown that
  the \<open>reservation\<close> object of the request carries, and the response is the same whatever
  the tax table holds: the handler that answers the request computes no subtotal and no
  tax. (The tax computation of the routes file sits in the second registration of the same
  method and path, which no request reaches.)
\<close>

theorem reservation_totals_as_sent:
  assumes "createReservationHandler e uid body s = ((201, b), s')"
  shows "\<exists>row. b = ReservationJson (e_newReservationId e) row
     \<and> reservations s' (e_newReservationId e) = Some row
     \<and> r_totalAmount row = ri_totalAmount (cb_reservation body)
     \<and> r_taxAmount row = ri_taxAmount (cb_reservation body)
     \<and> r_appliedTaxes row = ri_appliedTaxes (cb_reservation body)
     \<and> fst (createReservationHandler e uid body (s\<lparr>taxes := ts\<rparr>)) = (201, b)"
proof -
  from createReservationHandler_created [OF assms] obtain user resolved row s2 where
    row: "row = reservationWithConfirmation e uid (cb_reservation body) (fst resolved)"
    and created: "createReservation (e_newReservationId e) row (cb_rooms body) (snd resolved)
                   = Some (row, s2)"
    and b: "b = ReservationJson (e_newReservationId e) row"
    and s': "s' = reserveRooms (cb_rooms body) s2"
    by (elim exE conjE) (rule that, assumption+)
  have stored: "reservations s' (e_newReservationId e) = Some row"
    using createReservation_result(9) [OF created] by (simp add: s' reserveRooms_frame)
  have "fst (createReservationHandler e uid body (s\<lparr>taxes := ts\<rparr>)) =
        fst (createReservationHandler e uid body s)"
    by (cases "users s uid") (auto simp: createReservationHandler_response resolveGuest_taxes)
  then have same: "fst (createReservationHandler e uid body (s\<lparr>taxes := ts\<rparr>)) = (201, b)"
    by (simp add: assms)
  show ?thesis
    using b stored same
    by (intro exI [of _ row]) (simp add: row reservationWithConfirmation_def)
qed

text \<open>
  With active reservation taxes of 10 and 13 percent and one room at 33.34, the
  reservation is stored with total 33.34, tax 0 and an empty breakdown, as the client sent
  them; C1 asks for 33.34 + 3.33 + 4.33.
\<close>

theorem reservation_totals_as_sent_witness:
  "fst (createReservationHandler (demo_env ''r2'') ''manager''
      (demo_body ''555-0100'' [demo_detail 101 (3334 / 100)])
      (demo_state\<lparr>taxes := [demo_tax 1 ''Service charge'' 10, demo_tax 2 ''VAT'' 13]\<rparr>)) =
     (201, ReservationJson ''r2''
        \<lparr>r_branchId = Some 1, r_guestId = 1, r_status = ''confirmed'',
         r_confirmationNumber = ''RES28000123'', r_createdById = ''manager'',
         r_totalAmount = 3334 / 100, r_taxAmount = 0, r_appliedTaxes = [], r_notes = []\<rparr>)
   \<and> fst (createReservationHandler (demo_env ''r2'') ''manager''
      (demo_body ''555-0100'' [demo_detail 101 (3334 / 100)]) demo_state) =
     (201, ReservationJson ''r2''
        \<lparr>r_branchId = Some 1, r_guestId = 1, r_status = ''confirmed'',
         r_confirmationNumber = ''RES28000123'', r_createdById = ''manager'',
         r_totalAmount = 3334 / 100, r_taxAmount = 0, r_appliedTaxes = [], r_notes = []\<rparr>)
   \<and> map_option r_totalAmount
        (reservations (snd (createReservationHandler (demo_env ''r2'') ''manager''
             (demo_body ''555-0100'' [demo_detail 101 (3334 / 100)]) demo_state)) ''r2'')
       = Some (3334 / 100)
   \<and> (3334 / 100 :: money) \<noteq> 3334 / 100 + (333 / 100 + 433 / 100)"
proof -
  let ?body = "demo_body ''555-0100'' [demo_detail 101 (3334 / 100)]"
  let ?h = "createReservationHandler (demo_env ''r2'') ''manager'' ?body demo_state"
  let ?ts = "[demo_tax 1 ''Service charge'' 10, demo_tax 2 ''VAT'' 13]"
  have code: "fst (fst ?h) = 201"
    by (simp add: createReservationHandler_code gate_defs demo_defs)
  then have run: "?h = ((201, snd (fst ?h)), snd ?h)"
    by (metis prod.collapse)
  from reservation_totals_as_sent [OF run, where ts = ?ts] obtain row where
    b: "snd (fst ?h) = ReservationJson (e_newReservationId (demo_env ''r2'')) row"
    and stored: "reservations (snd ?h) (e_newReservationId (demo_env ''r2'')) = Some row"
    and total: "r_totalAmount row = ri_totalAmount (cb_reservation ?body)"
    and tax: "r_taxAmount row = ri_taxAmount (cb_reservation ?body)"
    and breakdown: "r_appliedTaxes row = ri_appliedTaxes (cb_reservation ?body)"
    and same: "fst (createReservationHandler (demo_env ''r2'') ''manager'' ?body
                 (demo_state\<lparr>taxes := ?ts\<rparr>)) = (201, snd (fst ?h))"
    by (elim exE conjE) (rule that, assumption+)
  have first: "fst ?h = (201, ReservationJson ''r2'' row)"
    using code b by (simp add: demo_env_def prod_eq_iff)
  then have rest: "r_branchId row = Some 1" "r_guestId row = 1" "r_status row = ''confirmed''"
    "r_confirmationNumber row = ''RES28000123''" "r_createdById row = ''manager''"
    "r_notes row = []"
    by (auto simp: create_defs gate_defs demo_defs demo_confirmation)
  have row: "row = \<lparr>r_branchId = Some 1, r_guestId = 1, r_status = ''confirmed'',
         r_confirmationNumber = ''RES28000123'', r_createdById = ''manager'',
         r_totalAmount = 3334 / 100, r_taxAmount = 0, r_appliedTaxes = [], r_notes = []\<rparr>"
    using rest total tax breakdown
    by (cases row) (simp add: demo_body_def demo_reservation_input_def demo_detail_def)
  show ?thesis
    using same first b stored row by (simp add: demo_env_def)
qed


subsection \<open>The worked example\<close>

text \<open>
  C9 does not hold of the code. In the scenario of the claim (branch 1, guest phone
  555-0100, one room at rate 100.00 with \<open>totalAmount\<close> 200.00, exactly one active
  reservation tax, of 10 percent) the created reservation carries whatever total \<open>a\<close>, tax
  \<open>t\<close> and breakdown \<open>bd\<close> the request's \<open>reservation\<close> object holds; the tax of 10 percent
  plays no part. The confirmation number is \<open>RES\<close> and the last eight digits of the clock,
  and matches \<open>RES\d{8}\<close>.
\<close>

theorem concrete_scenario_as_sent:
  "fst (createReservationHandler (demo_env ''r1'') ''manager''
          \<lparr>cb_guest = demo_guest_input ''555-0100'',
           cb_reservation = demo_reservation_input a t bd,
           cb_rooms = [demo_detail 101 200]\<rparr>
          (demo_state\<lparr>taxes := [demo_tax 1 ''Service charge'' 10]\<rparr>)) =
     (201, ReservationJson ''r1''
        \<lparr>r_branchId = Some 1, r_guestId = 1, r_status = ''confirmed'',
         r_confirmationNumber = ''RES28000123'', r_createdById = ''manager'',
         r_totalAmount = a, r_taxAmount = t, r_appliedTaxes = bd, r_notes = []\<rparr>)
   \<and> reservations (snd (createReservationHandler (demo_env ''r1'') ''manager''
          \<lparr>cb_guest = demo_guest_input ''555-0100'',
           cb_reservation = demo_reservation_input a t bd,
           cb_rooms = [demo_detail 101 200]\<rparr>
          (demo_state\<lparr>taxes := [demo_tax 1 ''Service charge'' 10]\<rparr>))) ''r1'' =
       Some \<lparr>r_branchId = Some 1, r_guestId = 1, r_status = ''confirmed'',
         r_confirmationNumber = ''RES28000123'', r_createdById = ''manager'',
         r_totalAmount = a, r_taxAmount = t, r_appliedTaxes = bd, r_notes = []\<rparr>
   \<and> matches_RES8 ''RES28000123''
   \<and> rd_ratePerNight (demo_detail 101 200) = 100
   \<and> rd_totalAmount (demo_detail 101 200) = 200
   \<and> filter (\<lambda>x. t_isActive x \<and> t_applicationType x = ''reservation'')
        (taxes (demo_state\<lparr>taxes := [demo_tax 1 ''Service charge'' 10]\<rparr>)) =
       [demo_tax 1 ''Service charge'' 10]
   \<and> t_rate (demo_tax 1 ''Service charge'' 10) = 10"
  by (simp add: create_defs gate_defs demo_defs demo_confirmation search_defs
                matches_RES8_def is_digit_def)

text \<open>
  A client that sends the room total 200.00 and no tax gets a reservation with tax amount
  0 and total amount 200.00, where C9 has 20.00 and 220.00.
\<close>

theorem concrete_scenario_as_sent_witness:
  "map_option r_taxAmount
     (reservations (snd (createReservationHandler (demo_env ''r1'') ''manager''
        (demo_body ''555-0100'' [demo_detail 101 200])
        (demo_state\<lparr>taxes := [demo_tax 1 ''Service charge'' 10]\<rparr>))) ''r1'') = Some 0
   \<and> map_option r_totalAmount
     (reservations (snd (createReservationHandler (demo_env ''r1'') ''manager''
        (demo_body ''555-0100'' [demo_detail 101 200])
        (demo_state\<lparr>taxes := [demo_tax 1 ''Service charge'' 10]\<rparr>))) ''r1'') = Some 200
   \<and> (0 :: money) \<noteq> 20 \<and> (200 :: money) \<noteq> 220"
  using concrete_scenario_as_sent [of 200 0 "[]"]
  by (simp add: demo_body_def demo_detail_def)


subsection \<open>Guest lookup by phone\<close>

text \<open>
  C2 does not hold of the code. When the request carries a non-empty phone and the guest
  search for it finds someone, the reservation is attached to the first search result and
  no guest is added. That guest is the most recently created active guest one of whose
  first name, last name, phone or email matches the pattern made of the phone text between
  two \<open>%\<close>; it need not have the phone of the request, and a guest that has exactly this
  phone is passed over when a later-created guest matches too.
\<close>

theorem guest_lookup_first_match:
  assumes run: "createReservationHandler e uid body s = ((201, b), s')"
    and phone: "gi_phone (cb_guest body) = Some p" and nonempty: "p \<noteq> []"
    and found: "searchGuests s p None = g # rest"
  shows "map_option r_guestId (reservations s' (e_newReservationId e)) = Some (g_id g)
       \<and> length (guests s') = length (guests s)
       \<and> g \<in> set (guests s) \<and> g_isActive g \<and> guest_matches p g
       \<and> (\<forall>x \<in> set (guests s). g_isActive x \<and> guest_matches p x \<longrightarrow>
             g_createdAt x \<le> g_createdAt g)"
proof -
  from createReservationHandler_guests [OF run] obtain br where
    gid: "map_option r_guestId (reservations s' (e_newReservationId e)) =
            Some (g_id (fst (resolveGuest (e_now e) (cb_guest body) br s)))"
    and gs: "guests s' =
        (if cb_rooms body \<noteq> [] \<and> g_id (fst (resolveGuest (e_now e) (cb_guest body) br s)) \<noteq> 0
         then map (\<lambda>x. if g_id x = g_id (fst (resolveGuest (e_now e) (cb_guest body) br s))
                        then x\<lparr>g_reservationCount := g_reservationCount x + 1\<rparr> else x)
                  (guests (snd (resolveGuest (e_now e) (cb_guest body) br s)))
         else guests (snd (resolveGuest (e_now e) (cb_guest body) br s)))"
    by (elim exE conjE) (rule that, assumption+)
  have res: "resolveGuest (e_now e) (cb_guest body) br s = (g, s)"
    using phone nonempty found by (rule resolveGuest_reuse)
  have first: "map_option r_guestId (reservations s' (e_newReservationId e)) = Some (g_id g)"
    by (simp add: gid res)
  have len: "length (guests s') = length (guests s)"
    by (simp add: gs res)
  have newest: "g \<in> set (guests s) \<and> g_isActive g \<and> guest_matches p g
       \<and> (\<forall>x \<in> set (guests s). g_isActive x \<and> guest_matches p x \<longrightarrow>
             g_createdAt x \<le> g_createdAt g)"
    using searchGuests_newest [OF found] by (simp add: falsy_id_def)
  show ?thesis
    by (rule conjI [OF first conjI [OF len newest]])
qed

text \<open>
  Guest 1 has the phone 555-0100 of the request. Guest 2, created later, has the phone
  1-555-0100. No two active guests share a phone. The reservation is attached to guest 2
  and it is the counter of guest 2 that goes up; guest 1 is left as it was.
\<close>

theorem guest_lookup_first_match_witness:
  "unique_active_phones (demo_with_guests [demo_guest 1 ''555-0100'' True 100,
                                           demo_guest 2 ''1-555-0100'' True 200])
   \<and> searchGuests (demo_with_guests [demo_guest 1 ''555-0100'' True 100,
                                     demo_guest 2 ''1-555-0100'' True 200]) ''555-0100'' None =
       [demo_guest 2 ''1-555-0100'' True 200, demo_guest 1 ''555-0100'' True 100]
   \<and> g_phone (demo_guest 1 ''555-0100'' True 100) = Some ''555-0100''
   \<and> g_phone (demo_guest 2 ''1-555-0100'' True 200) = Some ''1-555-0100''
   \<and> fst (fst (createReservationHandler (demo_env ''r1'') ''manager''
               (demo_body ''555-0100'' [demo_detail 101 200])
               (demo_with_guests [demo_guest 1 ''555-0100'' True 100,
                                  demo_guest 2 ''1-555-0100'' True 200]))) = 201
   \<and> map_option r_guestId
        (reservations (snd (createReservationHandler (demo_env ''r1'') ''manager''
               (demo_body ''555-0100'' [demo_detail 101 200])
               (demo_with_guests [demo_guest 1 ''555-0100'' True 100,
                                  demo_guest 2 ''1-555-0100'' True 200]))) ''r1'') = Some 2
   \<and> guests (snd (createReservationHandler (demo_env ''r1'') ''manager''
               (demo_body ''555-0100'' [demo_detail 101 200])
               (demo_with_guests [demo_guest 1 ''555-0100'' True 100,
                                  demo_guest 2 ''1-555-0100'' True 200]))) =
       [demo_guest 1 ''555-0100'' True 100,
        (demo_guest 2 ''1-555-0100'' True 200)\<lparr>g_reservationCount := 1\<rparr>]"
proof -
  let ?g1 = "demo_guest 1 ''555-0100'' True 100"
  let ?g2 = "demo_guest 2 ''1-555-0100'' True 200"
  let ?s = "demo_with_guests [?g1, ?g2]"
  let ?body = "demo_body ''555-0100'' [demo_detail 101 200]"
  let ?h = "createReservationHandler (demo_env ''r1'') ''manager'' ?body ?s"
  have unique: "unique_active_phones ?s"
    by (simp add: unique_active_phones_def demo_with_guests_def demo_state_def demo_guest_def)
  have found: "searchGuests ?s ''555-0100'' None = ?g2 # [?g1]"
    by (simp add: searchGuests_def guest_matches_def search_defs falsy_id_def
                  demo_with_guests_def demo_state_def demo_guest_def)
  have phones: "g_phone ?g1 = Some ''555-0100''" "g_phone ?g2 = Some ''1-555-0100''"
    by (simp_all add: demo_guest_def)
  have code: "fst (fst ?h) = 201"
    by (simp add: createReservationHandler_code gate_defs demo_defs)
  then have run: "?h = ((201, snd (fst ?h)), snd ?h)"
    by (metis prod.collapse)
  have phone: "gi_phone (cb_guest ?body) = Some ''555-0100''"
    by (simp add: demo_body_def demo_guest_input_def)
  note fact = guest_lookup_first_match [OF run phone _ found]
  have attached: "map_option r_guestId (reservations (snd ?h) ''r1'') = Some 2"
    using fact by (simp add: demo_env_def demo_guest_def)
  have gs: "guests (snd ?h) = [?g1, ?g2\<lparr>g_reservationCount := 1\<rparr>]"
    by (simp add: create_defs gate_defs demo_defs search_defs)
  show ?thesis
    using found by (intro conjI unique phones code attached gs) simp
qed


subsection \<open>Room reconciliation\<close>

text \<open>
  C3 does not hold of the code. Take a comprehensive \<open>PATCH /api/reservations/:id\<close> with a
  \<open>rooms\<close> array that passes the permission checks and the terminal-state guard. It answers
  200 only when no entry of the payload carries an id and the reservation has no row to
  remove; in every other case the call of a storage method that does not exist throws and
  the answer is 500. No existing reservation-room row is ever removed or changed: the
  table before is an initial segment of the table after. When a row is due for removal the
  exception comes before any other step of the reconciliation, and both the
  reservation-room table and the room statuses stay exactly as they were.
\<close>

theorem room_reconciliation_throws:
  assumes user: "users s uid = Some user"
    and perm: "checkUserPermission s uid ''reservations'' Write"
    and found: "reservations s rid = Some r"
    and branch: "checkBranchPermissions (u_role user) (u_branchId user) (r_branchId r)"
    and editable: "r_status r \<noteq> ''checked-out'' \<and> r_status r \<noteq> ''cancelled''"
    and payload: "pb_rooms body = Some roomList"
  shows "fst (updateReservationHandler uid rid body s) =
          (if incomingRoomIds roomList = []
              \<and> \<not> list_ex (\<lambda>rr. rr_reservationId rr = rid
                                 \<and> rr_id rr \<notin> set (incomingRoomIds roomList))
                     (reservationRooms s)
           then (200, ReservationDetail
                        (getReservation (snd (updateReservationHandler uid rid body s)) rid))
           else (500, Message ''Failed to update reservation''))
       \<and> take (length (reservationRooms s))
            (reservationRooms (snd (updateReservationHandler uid rid body s)))
           = reservationRooms s
       \<and> (list_ex (\<lambda>rr. rr_reservationId rr = rid
                        \<and> rr_id rr \<notin> set (incomingRoomIds roomList)) (reservationRooms s) \<longrightarrow>
            reservationRooms (snd (updateReservationHandler uid rid body s)) = reservationRooms s
          \<and> rooms (snd (updateReservationHandler uid rid body s)) = rooms s)"
proof -
  let ?cur = "filter (\<lambda>rr. rr_reservationId rr = rid) (reservationRooms s)"
  let ?gone = "filter (\<lambda>rr. \<not> (rr_id rr \<in> set (incomingRoomIds roomList))) ?cur"
  let ?h = "updateReservationHandler uid rid body s"
  let ?u = "comprehensiveUpdate rid (r, ?cur) body s"
  have h: "?h = (case fst ?u of
                   Some err \<Rightarrow> ((500, Message ''Failed to update reservation''), snd ?u)
                 | None \<Rightarrow> ((200, ReservationDetail (getReservation (snd ?u) rid)), snd ?u))"
    using user perm found branch editable payload
    by (simp add: updateReservationHandler_def getReservation_def Let_def)
  from comprehensiveUpdate_rooms [OF payload, of rid "(r, ?cur)" s] obtain s2 where
    u: "?u = reconcileRooms rid ?cur roomList s2"
    and rooms2: "rooms s2 = rooms s" and rows2: "reservationRooms s2 = reservationRooms s"
    by auto
  have gone: "?gone = [] \<longleftrightarrow>
      \<not> list_ex (\<lambda>rr. rr_reservationId rr = rid \<and> rr_id rr \<notin> set (incomingRoomIds roomList))
           (reservationRooms s)"
    by (auto simp: filter_empty_conv list_ex_iff)
  show ?thesis
  proof (cases "?gone = []")
    case True
    then have u': "?u = processRooms rid roomList s2"
      by (simp add: u reconcileRooms_def Let_def removeRooms_throws andThen_def)
    have "fst ?u = (if incomingRoomIds roomList = [] then None
                    else Some (TypeError ''storage.updateReservationRoom is not a function''))"
      by (simp add: u' processRooms_outcome)
    moreover have "take (length (reservationRooms s)) (reservationRooms (snd ?u))
                    = reservationRooms s"
      using processRooms_rows [of s2 rid roomList] by (simp add: u' rows2)
    ultimately show ?thesis
      using True gone by (simp add: h)
  next
    case False
    then have u': "?u = (Some (TypeError ''storage.deleteReservationRoom is not a function''), s2)"
      by (simp add: u reconcileRooms_def Let_def removeRooms_throws andThen_def)
    show ?thesis
      using False gone by (simp add: h u' rooms2 rows2)
  qed
qed

text \<open>
  The example of C3: reservation \<open>r1\<close> holds the rows 1, 2 and 3 (rooms 101, 102, 103) and the
  payload has row 2 with new amounts and a new entry for room 104. The answer is 500 and
  the store is unchanged: rows 1 and 3 are still there, room 101 is still \<open>reserved\<close> and room
  104 is still \<open>available\<close>.
\<close>

theorem room_reconciliation_throws_witness:
  "users (demo_booked ''confirmed'') ''manager''
     = Some \<lparr>u_role = ''branch-admin'', u_branchId = Some 1\<rparr>
   \<and> checkUserPermission (demo_booked ''confirmed'') ''manager'' ''reservations'' Write
   \<and> reservations (demo_booked ''confirmed'') ''r1'' = Some (demo_reservation ''confirmed'')
   \<and> checkBranchPermissions ''branch-admin'' (Some 1) (r_branchId (demo_reservation ''confirmed''))
   \<and> map rr_id (reservationRooms (demo_booked ''confirmed'')) = [1, 2, 3]
   \<and> updateReservationHandler ''manager'' ''r1''
        (rooms_only [demo_entry (Some 2) 102 250, demo_entry None 104 180])
        (demo_booked ''confirmed'') =
      ((500, Message ''Failed to update reservation''), demo_booked ''confirmed'')
   \<and> map_option rm_status (rooms (demo_booked ''confirmed'') 101) = Some ''reserved''
   \<and> map_option rm_status (rooms (demo_booked ''confirmed'') 104) = Some ''available''"
proof -
  let ?s = "demo_booked ''confirmed''"
  let ?list = "[demo_entry (Some 2) 102 250, demo_entry None 104 180]"
  let ?h = "updateReservationHandler ''manager'' ''r1'' (rooms_only ?list) ?s"
  have user: "users ?s ''manager'' = Some \<lparr>u_role = ''branch-admin'', u_branchId = Some 1\<rparr>"
    by (simp add: demo_defs)
  have perm: "checkUserPermission ?s ''manager'' ''reservations'' Write"
    by (simp add: gate_defs demo_defs)
  have found: "reservations ?s ''r1'' = Some (demo_reservation ''confirmed'')"
    by (simp add: demo_booked_def demo_state_def)
  have branch: "checkBranchPermissions ''branch-admin'' (Some 1)
                  (r_branchId (demo_reservation ''confirmed''))"
    by (simp add: gate_defs demo_defs)
  have editable: "r_status (demo_reservation ''confirmed'') \<noteq> ''checked-out''
                  \<and> r_status (demo_reservation ''confirmed'') \<noteq> ''cancelled''"
    by (simp add: demo_reservation_def)
  have payload: "pb_rooms (rooms_only ?list) = Some ?list"
    by (simp add: rooms_only_def)
  have ids: "map rr_id (reservationRooms ?s) = [1, 2, 3]"
    by (simp add: demo_booked_def demo_state_def)
  have inc: "incomingRoomIds ?list = [2]"
    by (simp add: incomingRoomIds_def demo_entry_def)
  note fact = room_reconciliation_throws [OF user perm found _ editable payload]
  have response: "fst ?h = (500, Message ''Failed to update reservation'')"
    using fact [THEN conjunct1] branch by (simp add: inc)
  have state: "snd ?h = ?s"
    by (simp add: updateReservationHandler_def getReservation_def comprehensiveUpdate_def
                  reconcileRooms_def removeRooms_throws andThen_def incomingRoomIds_def
                  gate_defs demo_defs Let_def)
  have whole: "?h = ((500, Message ''Failed to update reservation''), ?s)"
    using response state by (simp add: prod_eq_iff)
  have r101: "map_option rm_status (rooms ?s 101) = Some ''reserved''"
    and r104: "map_option rm_status (rooms ?s 104) = Some ''available''"
    by (simp_all add: demo_defs)
  show ?thesis
    by (intro conjI user perm found branch ids whole r101 r104)
qed

end
